theory Spec2Isabelle
  imports Complex_Main "HOL-Library.AList" "HOL-Library.Multiset"
begin

section \<open>JavaScript values and host objects\<close>

text \<open>
  The two near-duplicate client classes of the repository are embedded side by side:
  \<^item> \<^verbatim>\<open>src/hooks/ShoehiveClient.js\<close> (suffix \<open>_hooks\<close>), and
  \<^item> the class of \<^verbatim>\<open>unnamed/part_000\<close>, with \<^verbatim>\<open>setupSocketListeners\<close>
    (suffix \<open>_client\<close>).
  Methods whose text is the same in both (\<^verbatim>\<open>triggerEvent\<close>, the constructor) are
  embedded once.

  Exceptions are values: \<open>exn\<close> lists the kinds of exception the code can meet.
\<close>

datatype exn = SyntaxError | TypeError | InvalidStateError | UsageError

text \<open>
  A JavaScript number is an IEEE 754 double: \<open>Finite x\<close> holds the value of a finite
  double, as a rational (the sign of zero is not kept). The product of two doubles is
  the double nearest to the exact product, ties going to the even significand:
  \<open>to_double\<close> rounds a rational to 53 significant bits, to a multiple of \<open>2^-1074\<close>
  for the subnormal numbers, and to an infinity from \<open>2^1024 - 2^970\<close> on.
\<close>

datatype number = Finite rat | PlusInfinity | MinusInfinity | NaN

function bits :: "int \<Rightarrow> int" where
  "bits k = (if k \<le> 0 then 0 else 1 + bits (k div 2))"
  by pat_completeness auto
termination
  by (relation "measure nat") auto

declare bits.simps [simp del]

definition pow2 :: "int \<Rightarrow> rat" where
  "pow2 k = (if 0 \<le> k then 2 ^ nat k else 1 / 2 ^ nat (- k))"

text \<open>\<open>floor_log2 x\<close> is the \<open>k\<close> with \<open>2^k \<le> x < 2^(k+1)\<close>, for a positive \<open>x\<close>.\<close>

definition floor_log2 :: "rat \<Rightarrow> int" where
  "floor_log2 x =
     (let (p, q) = quotient_of x;
          k = bits p - bits q
      in if pow2 k \<le> x then k else k - 1)"

definition round_half_even :: "rat \<Rightarrow> int" where
  "round_half_even x =
     (let f = \<lfloor>x\<rfloor>; r = x - of_int f
      in if r < 1 / 2 then f else if 1 / 2 < r then f + 1 else if even f then f else f + 1)"

definition to_double :: "rat \<Rightarrow> number" where
  "to_double x =
     (if x = 0 then Finite 0
      else
        (let a = \<bar>x\<bar>;
             e = max (floor_log2 a - 52) (- 1074);
             m = round_half_even (a / pow2 e)
         in if 971 < e \<or> (e = 971 \<and> 2 ^ 53 \<le> m)
            then (if 0 < x then PlusInfinity else MinusInfinity)
            else Finite (if 0 < x then of_int m * pow2 e else - (of_int m * pow2 e))))"

text \<open>The operator \<^verbatim>\<open>*\<close> on numbers.\<close>

fun multiply :: "number \<Rightarrow> number \<Rightarrow> number" where
  "multiply (Finite x) (Finite y) = to_double (x * y)"
| "multiply NaN y = NaN"
| "multiply x NaN = NaN"
| "multiply (Finite x) PlusInfinity =
     (if x = 0 then NaN else if 0 < x then PlusInfinity else MinusInfinity)"
| "multiply (Finite x) MinusInfinity =
     (if x = 0 then NaN else if 0 < x then MinusInfinity else PlusInfinity)"
| "multiply PlusInfinity (Finite y) =
     (if y = 0 then NaN else if 0 < y then PlusInfinity else MinusInfinity)"
| "multiply MinusInfinity (Finite y) =
     (if y = 0 then NaN else if 0 < y then MinusInfinity else PlusInfinity)"
| "multiply PlusInfinity PlusInfinity = PlusInfinity"
| "multiply PlusInfinity MinusInfinity = MinusInfinity"
| "multiply MinusInfinity PlusInfinity = MinusInfinity"
| "multiply MinusInfinity MinusInfinity = PlusInfinity"

text \<open>
  What \<^verbatim>\<open>JSON.parse\<close> can return. A number is kept as the text JavaScript prints
  for it (the client never computes with the numbers of a message). An object is the
  list of its own properties, in the order JavaScript enumerates them; a property is read
  with \<open>map_of\<close>.
\<close>

datatype jsval =
    JNull
  | JBool bool
  | JNum string
  | JStr string
  | JArr "jsval list"
  | JObj "(string \<times> jsval) list"

text \<open>A callback is a function reference: \<^verbatim>\<open>cb !== callback\<close> compares references.\<close>

type_synonym callback = nat

text \<open>What an event handler or a state-change callback is called with.\<close>

datatype payload =
    NoPayload                        \<comment> \<open>\<^verbatim>\<open>triggerEvent('connected')\<close>: data is undefined\<close>
  | Message jsval                    \<comment> \<open>a parsed inbound message\<close>
  | Flag bool                        \<comment> \<open>\<^verbatim>\<open>onConnectionChange(true / false)\<close>\<close>
  | CloseEvent nat string            \<comment> \<open>the transport's close event, with its code and reason\<close>
  | CloseInfo nat string             \<comment> \<open>\<^verbatim>\<open>{ code, reason }\<close>\<close>
  | ErrorEvent                       \<comment> \<open>the transport's error event\<close>
  | ErrorInfo string string payload  \<comment> \<open>\<^verbatim>\<open>{ type, message, error }\<close>\<close>
  | Caught exn                       \<comment> \<open>the exception object a catch clause holds\<close>

datatype readyState = CONNECTING | OPEN | CLOSING | CLOSED

text \<open>The observable calls the client makes, in the order it makes them.\<close>

datatype effect =
    Fired string payload                       \<comment> \<open>\<^verbatim>\<open>triggerEvent\<close> looked up \<^verbatim>\<open>this.eventHandlers[event]\<close>\<close>
  | Invoked callback payload                   \<comment> \<open>\<^verbatim>\<open>callback(data)\<close>\<close>
  | Created nat string "string list option"    \<comment> \<open>\<^verbatim>\<open>new WebSocket(url, protocols)\<close>\<close>
  | HeaderSet nat string string                \<comment> \<open>\<^verbatim>\<open>socket.setRequestHeader(key, value)\<close>\<close>
  | CloseCalled nat                            \<comment> \<open>\<^verbatim>\<open>socket.close()\<close>\<close>
  | SentFrame nat string                       \<comment> \<open>\<^verbatim>\<open>socket.send(text)\<close> returned\<close>
  | TimerSet number                            \<comment> \<open>\<^verbatim>\<open>setTimeout(() => this.connect(), delay)\<close>\<close>

text \<open>
  What \<^verbatim>\<open>authStrategy()\<close> returns: any subset of the three fields. The strategy
  is taken to return an object, the same one at every call.
\<close>

record authDetails =
  auth_url :: "string option"
  auth_protocols :: "string list option"
  auth_headers :: "(string \<times> string) list option"

section \<open>The client object and its host\<close>

text \<open>
  The fields of \<^verbatim>\<open>ShoehiveClient\<close> as the constructor declares them. \<open>None\<close> is
  \<^verbatim>\<open>null\<close>. \<open>socket\<close> holds a reference to a transport handle: an index into
  \<open>sockets\<close> below. The four \<open>on...Change\<close> fields exist in the hooks class only; the
  other class never reads them. The two counters are natural numbers; the base delay is
  a double.
\<close>

record ShoehiveClient =
  serverUrl :: string
  socket :: "nat option"
  connected :: bool
  reconnectAttempts :: nat
  maxReconnectAttempts :: nat
  reconnectDelay :: number
  autoReconnect :: bool
  authStrategy :: "authDetails option"
  playerState :: "jsval option"
  lobbyState :: "jsval option"
  tableState :: "jsval option"
  eventHandlers :: "string \<rightharpoonup> callback list"
  onPlayerStateChange :: "callback option"
  onLobbyStateChange :: "callback option"
  onTableStateChange :: "callback option"
  onConnectionChange :: "callback option"

text \<open>
  The client together with the host it runs in: the transport handles created so far
  with their \<^verbatim>\<open>readyState\<close>, the pending reconnect timers (their delays), and the
  trace of observable calls, oldest first.
\<close>

record world = ShoehiveClient +
  sockets :: "readyState list"
  timers :: "number list"
  trace :: "effect list"

text \<open>
  What the code takes from outside the repository: the two \<^verbatim>\<open>JSON\<close> functions
  (\<open>None\<close> when they throw), whether \<^verbatim>\<open>new WebSocket(url, protocols)\<close> accepts its arguments,
  whether a handle has \<^verbatim>\<open>setRequestHeader\<close>, whether \<^verbatim>\<open>send\<close> throws in a
  given \<^verbatim>\<open>readyState\<close>, \<^verbatim>\<open>Math.pow\<close> at a whole exponent (the language leaves
  its precision to the implementation), and the message-type constants of the
  \<^verbatim>\<open>shoehive\<close> package.
\<close>

record host =
  JSON_parse :: "string \<Rightarrow> jsval option"
  JSON_stringify :: "jsval \<Rightarrow> string option"
  ws_accepts :: "string \<Rightarrow> string list option \<Rightarrow> bool"
  has_setRequestHeader :: bool
  send_throws :: "readyState \<Rightarrow> bool"
  Math_pow :: "number \<Rightarrow> nat \<Rightarrow> number"
  PLAYER_STATE :: string
  LOBBY_STATE :: string
  TABLE_STATE :: string
  ERROR :: string

text \<open>The constructor's \<^verbatim>\<open>options\<close> argument; \<open>None\<close> is an absent field.\<close>

record options =
  opt_maxReconnectAttempts :: "nat option"
  opt_reconnectDelay :: "number option"
  opt_autoReconnect :: "bool option"
  opt_authStrategy :: "authDetails option"

text \<open>
  \<^verbatim>\<open>options.maxReconnectAttempts || 5\<close>: an absent field and \<open>0\<close> are both falsy.
\<close>

definition or_default :: "nat option \<Rightarrow> nat \<Rightarrow> nat" where
  "or_default v d = (case v of None \<Rightarrow> d | Some x \<Rightarrow> if x = 0 then d else x)"

text \<open>\<^verbatim>\<open>options.reconnectDelay || 1000\<close>: zero and \<^verbatim>\<open>NaN\<close> are falsy numbers.\<close>

definition number_or :: "number option \<Rightarrow> number \<Rightarrow> number" where
  "number_or v d =
     (case v of None \<Rightarrow> d | Some x \<Rightarrow> if x = Finite 0 \<or> x = NaN then d else x)"

definition new_ShoehiveClient :: "string \<Rightarrow> options \<Rightarrow> world" where
  "new_ShoehiveClient url opts =
     \<lparr> serverUrl = url,
       socket = None,
       connected = False,
       reconnectAttempts = 0,
       maxReconnectAttempts = or_default (opt_maxReconnectAttempts opts) 5,
       reconnectDelay = number_or (opt_reconnectDelay opts) (Finite 1000),
       autoReconnect = (opt_autoReconnect opts \<noteq> Some False),
       authStrategy = opt_authStrategy opts,
       playerState = None,
       lobbyState = None,
       tableState = None,
       eventHandlers = Map.empty,
       onPlayerStateChange = None,
       onLobbyStateChange = None,
       onTableStateChange = None,
       onConnectionChange = None,
       sockets = [],
       timers = [],
       trace = [] \<rparr>"

section \<open>The event subscription table\<close>

text \<open>
  \<^verbatim>\<open>this.eventHandlers = {}\<close> is a plain object, so \<^verbatim>\<open>this.eventHandlers[event]\<close>
  finds, besides the arrays the client stored, the properties every object inherits from
  \<^verbatim>\<open>Object.prototype\<close>. Those are truthy and are not arrays: they have no
  \<^verbatim>\<open>push\<close>, \<^verbatim>\<open>filter\<close> or \<^verbatim>\<open>forEach\<close>, and calling one raises a TypeError.
\<close>

definition Object_prototype_keys :: "string list" where
  "Object_prototype_keys =
     [''constructor'', ''hasOwnProperty'', ''isPrototypeOf'', ''propertyIsEnumerable'',
      ''toLocaleString'', ''toString'', ''valueOf'', ''__proto__'',
      ''__defineGetter__'', ''__defineSetter__'', ''__lookupGetter__'', ''__lookupSetter__'']"

datatype slot = Absent | Own "callback list" | Inherited

definition handlers_at :: "world \<Rightarrow> string \<Rightarrow> slot" where
  "handlers_at w event =
     (case eventHandlers w event of
        Some hs \<Rightarrow> Own hs
      | None \<Rightarrow> if event \<in> set Object_prototype_keys then Inherited else Absent)"

definition emit :: "effect list \<Rightarrow> world \<Rightarrow> world" where
  "emit es w = w\<lparr>trace := trace w @ es\<rparr>"

text \<open>
  \<^verbatim>\<open>triggerEvent(event, data)\<close>, the same in both classes. A result is the exception
  thrown, if any, with the world as the call leaves it. Callbacks are opaque: a call is
  recorded in the trace, and is taken to return without touching the client.
\<close>

definition triggerEvent :: "string \<Rightarrow> payload \<Rightarrow> world \<Rightarrow> exn option \<times> world" where
  "triggerEvent event data w =
     (let w1 = emit [Fired event data] w in
      case handlers_at w event of
        Absent \<Rightarrow> (None, w1)
      | Own hs \<Rightarrow> (None, emit (map (\<lambda>callback. Invoked callback data) hs) w1)
      | Inherited \<Rightarrow> (Some TypeError, w1))"

text \<open>
  The closure \<^verbatim>\<open>on\<close> returns. The hooks class filters without looking whether
  the list exists; the other class guards the filter.
\<close>

definition unsubscribe_hooks :: "string \<Rightarrow> callback \<Rightarrow> world \<Rightarrow> exn option \<times> world" where
  "unsubscribe_hooks event callback w =
     (case handlers_at w event of
        Own hs \<Rightarrow>
          (None, w\<lparr>eventHandlers := (eventHandlers w)(event \<mapsto> filter (\<lambda>cb. cb \<noteq> callback) hs)\<rparr>)
      | Absent \<Rightarrow> (Some TypeError, w)
      | Inherited \<Rightarrow> (Some TypeError, w))"

definition unsubscribe_client :: "string \<Rightarrow> callback \<Rightarrow> world \<Rightarrow> exn option \<times> world" where
  "unsubscribe_client event callback w =
     (case handlers_at w event of
        Own hs \<Rightarrow>
          (None, w\<lparr>eventHandlers := (eventHandlers w)(event \<mapsto> filter (\<lambda>cb. cb \<noteq> callback) hs)\<rparr>)
      | Absent \<Rightarrow> (None, w)
      | Inherited \<Rightarrow> (Some TypeError, w))"

text \<open>
  \<^verbatim>\<open>on(event, callback)\<close>: creates the list when the lookup is falsy, pushes, and
  returns the closure. The result is the exception thrown or the closure returned; the
  closure is the unsubscribe function of the class, holding \<open>event\<close> and \<open>callback\<close>.
\<close>

definition on_hooks ::
  "string \<Rightarrow> callback \<Rightarrow> world \<Rightarrow> (exn + (world \<Rightarrow> exn option \<times> world)) \<times> world" where
  "on_hooks event callback w =
     (case handlers_at w event of
        Absent \<Rightarrow>
          (Inr (unsubscribe_hooks event callback),
           w\<lparr>eventHandlers := (eventHandlers w)(event \<mapsto> [] @ [callback])\<rparr>)
      | Own hs \<Rightarrow>
          (Inr (unsubscribe_hooks event callback),
           w\<lparr>eventHandlers := (eventHandlers w)(event \<mapsto> hs @ [callback])\<rparr>)
      | Inherited \<Rightarrow> (Inl TypeError, w))"

definition on_client ::
  "string \<Rightarrow> callback \<Rightarrow> world \<Rightarrow> (exn + (world \<Rightarrow> exn option \<times> world)) \<times> world" where
  "on_client event callback w =
     (case handlers_at w event of
        Absent \<Rightarrow>
          (Inr (unsubscribe_client event callback),
           w\<lparr>eventHandlers := (eventHandlers w)(event \<mapsto> [] @ [callback])\<rparr>)
      | Own hs \<Rightarrow>
          (Inr (unsubscribe_client event callback),
           w\<lparr>eventHandlers := (eventHandlers w)(event \<mapsto> hs @ [callback])\<rparr>)
      | Inherited \<Rightarrow> (Inl TypeError, w))"

text \<open>Statements in sequence: the next one runs unless the last one threw.\<close>

definition and_then ::
  "exn option \<times> world \<Rightarrow> (world \<Rightarrow> exn option \<times> world) \<Rightarrow> exn option \<times> world" where
  "and_then r next_statement =
     (case r of (None, w) \<Rightarrow> next_statement w | (Some e, w) \<Rightarrow> (Some e, w))"

text \<open>\<^verbatim>\<open>if (this.onXChange) { this.onXChange(value); }\<close>\<close>

definition notify :: "callback option \<Rightarrow> payload \<Rightarrow> world \<Rightarrow> world" where
  "notify cb v w = (case cb of None \<Rightarrow> w | Some callback \<Rightarrow> emit [Invoked callback v] w)"

section \<open>Message routing\<close>

text \<open>
  \<^verbatim>\<open>message.type\<close>: reading a property of \<^verbatim>\<open>null\<close> raises a TypeError; a value
  without the property gives \<^verbatim>\<open>undefined\<close> (\<open>None\<close>).
\<close>

definition message_type :: "jsval \<Rightarrow> exn + jsval option" where
  "message_type message =
     (case message of
        JNull \<Rightarrow> Inl TypeError
      | JObj props \<Rightarrow> Inr (map_of props ''type'')
      | _ \<Rightarrow> Inr None)"

text \<open>
  The property key JavaScript makes of a value used as \<^verbatim>\<open>this.eventHandlers[event]\<close>:
  a string is its own key, anything else is converted to a string first. An array is
  joined with commas, \<^verbatim>\<open>null\<close> elements giving the empty string. An object is
  converted by its \<^verbatim>\<open>toString\<close> method: the inherited one gives
  \<^verbatim>\<open>[object Object]\<close>, but an own property \<^verbatim>\<open>toString\<close> of a parsed object
  hides it and is not callable, and the conversion raises a TypeError (\<open>None\<close>).
\<close>

fun join_comma :: "string list \<Rightarrow> string" where
  "join_comma [] = []"
| "join_comma [s] = s"
| "join_comma (s # t # ss) = s @ '','' @ join_comma (t # ss)"

fun all_some :: "'a option list \<Rightarrow> 'a list option" where
  "all_some [] = Some []"
| "all_some (None # xs) = None"
| "all_some (Some y # xs) = (case all_some xs of None \<Rightarrow> None | Some ys \<Rightarrow> Some (y # ys))"

fun to_string :: "jsval \<Rightarrow> string option" where
  "to_string JNull = Some ''null''"
| "to_string (JBool b) = Some (if b then ''true'' else ''false'')"
| "to_string (JNum text) = Some text"
| "to_string (JStr s) = Some s"
| "to_string (JArr xs) =
     map_option join_comma
       (all_some (map (\<lambda>x. if x = JNull then Some [] else to_string x) xs))"
| "to_string (JObj props) =
     (if ''toString'' \<in> set (map fst props) then None else Some ''[object Object]'')"

definition to_key :: "jsval option \<Rightarrow> exn + string" where
  "to_key v =
     (case v of
        None \<Rightarrow> Inr ''undefined''
      | Some x \<Rightarrow> (case to_string x of None \<Rightarrow> Inl TypeError | Some key \<Rightarrow> Inr key))"

text \<open>
  \<^verbatim>\<open>this.triggerEvent(message.type, message)\<close>: the event is a value of the
  message; \<^verbatim>\<open>triggerEvent\<close> makes a property key of it when it first reads
  \<^verbatim>\<open>this.eventHandlers[event]\<close>.
\<close>

definition triggerEvent_value :: "jsval option \<Rightarrow> payload \<Rightarrow> world \<Rightarrow> exn option \<times> world" where
  "triggerEvent_value event data w =
     (case to_key event of
        Inl e \<Rightarrow> (Some e, w)
      | Inr key \<Rightarrow> triggerEvent key data w)"

text \<open>
  \<^verbatim>\<open>handleMessage(message)\<close> of the hooks class: a \<^verbatim>\<open>switch\<close> on
  \<^verbatim>\<open>message.type\<close> with strict equality, the first matching case taken.
\<close>

definition handleMessage_hooks :: "host \<Rightarrow> jsval \<Rightarrow> world \<Rightarrow> exn option \<times> world" where
  "handleMessage_hooks env message w =
     (case message_type message of
        Inl e \<Rightarrow> (Some e, w)
      | Inr t \<Rightarrow>
          if t = Some (JStr (PLAYER_STATE env)) then
            and_then (triggerEvent ''playerState'' (Message message) (w\<lparr>playerState := Some message\<rparr>))
              (\<lambda>w'. (None, notify (onPlayerStateChange w') (Message message) w'))
          else if t = Some (JStr (LOBBY_STATE env)) then
            and_then (triggerEvent ''lobbyState'' (Message message) (w\<lparr>lobbyState := Some message\<rparr>))
              (\<lambda>w'. (None, notify (onLobbyStateChange w') (Message message) w'))
          else if t = Some (JStr (TABLE_STATE env)) then
            and_then (triggerEvent ''tableState'' (Message message) (w\<lparr>tableState := Some message\<rparr>))
              (\<lambda>w'. (None, notify (onTableStateChange w') (Message message) w'))
          else if t = Some (JStr (ERROR env)) then
            triggerEvent ''serverError'' (Message message) w
          else
            triggerEvent_value t (Message message) w)"

text \<open>
  \<^verbatim>\<open>handleMessage(message)\<close> of the other class: the \<^verbatim>\<open>switch\<close> only caches, then
  the type-named event and the generic \<^verbatim>\<open>'message'\<close> event are triggered.
\<close>

definition handleMessage_client :: "host \<Rightarrow> jsval \<Rightarrow> world \<Rightarrow> exn option \<times> world" where
  "handleMessage_client env message w =
     (case message_type message of
        Inl e \<Rightarrow> (Some e, w)
      | Inr t \<Rightarrow>
          (let w1 =
             (if t = Some (JStr (PLAYER_STATE env)) then w\<lparr>playerState := Some message\<rparr>
              else if t = Some (JStr (LOBBY_STATE env)) then w\<lparr>lobbyState := Some message\<rparr>
              else if t = Some (JStr (TABLE_STATE env)) then w\<lparr>tableState := Some message\<rparr>
              else w)
           in and_then (triggerEvent_value t (Message message) w1)
                (triggerEvent ''message'' (Message message))))"

text \<open>
  The \<^verbatim>\<open>'message'\<close> listener of each class, on the text of a frame. The hooks class
  only logs what it catches; the other class reports it as a \<^verbatim>\<open>parseError\<close>.
\<close>

definition on_message_hooks :: "host \<Rightarrow> string \<Rightarrow> world \<Rightarrow> exn option \<times> world" where
  "on_message_hooks env data w =
     (case JSON_parse env data of
        None \<Rightarrow> (None, w)
      | Some message \<Rightarrow> (None, snd (handleMessage_hooks env message w)))"

definition parseError :: "exn \<Rightarrow> payload" where
  "parseError e = ErrorInfo ''parseError'' ''Failed to parse server message'' (Caught e)"

definition on_message_client :: "host \<Rightarrow> string \<Rightarrow> world \<Rightarrow> exn option \<times> world" where
  "on_message_client env data w =
     (case JSON_parse env data of
        None \<Rightarrow> triggerEvent ''error'' (parseError SyntaxError) w
      | Some message \<Rightarrow>
          (case handleMessage_client env message w of
             (None, w') \<Rightarrow> (None, w')
           | (Some e, w') \<Rightarrow> triggerEvent ''error'' (parseError e) w'))"

text \<open>
  The events triggered between two worlds: the \<open>Fired\<close> entries the trace has gained,
  in order, each with its payload.
\<close>

fun fired :: "effect list \<Rightarrow> (string \<times> payload) list" where
  "fired [] = []"
| "fired (Fired event data # es) = (event, data) # fired es"
| "fired (_ # es) = fired es"

definition fired_between :: "world \<Rightarrow> world \<Rightarrow> (string \<times> payload) list" where
  "fired_between w w' = fired (drop (length (trace w)) (trace w'))"

text \<open>The calls of one callback between two worlds.\<close>

fun calls_of :: "callback \<Rightarrow> effect list \<Rightarrow> payload list" where
  "calls_of cb [] = []"
| "calls_of cb (Invoked callback data # es) =
     (if callback = cb then data # calls_of cb es else calls_of cb es)"
| "calls_of cb (_ # es) = calls_of cb es"

definition calls_between :: "callback \<Rightarrow> world \<Rightarrow> world \<Rightarrow> payload list" where
  "calls_between cb w w' = calls_of cb (drop (length (trace w)) (trace w'))"

text \<open>The list \<^verbatim>\<open>this.eventHandlers[event]\<close> holds; empty when there is none.\<close>

definition handlers :: "world \<Rightarrow> string \<Rightarrow> callback list" where
  "handlers w event = (case eventHandlers w event of None \<Rightarrow> [] | Some hs \<Rightarrow> hs)"

section \<open>The transport\<close>

text \<open>
  The \<^verbatim>\<open>readyState\<close> of a handle. A reference the client holds always points at a
  handle that was created; a reference to none reads as closed.
\<close>

definition readyState_of :: "world \<Rightarrow> nat \<Rightarrow> readyState" where
  "readyState_of w s = (if s < length (sockets w) then sockets w ! s else CLOSED)"

text \<open>
  \<^verbatim>\<open>new WebSocket(url, protocols)\<close>: a new handle in state \<open>CONNECTING\<close>, or a
  SyntaxError when the host rejects the arguments.
\<close>

definition new_WebSocket :: "host \<Rightarrow> string \<Rightarrow> string list option \<Rightarrow> world \<Rightarrow> (exn + nat) \<times> world" where
  "new_WebSocket env url protocols w =
     (if ws_accepts env url protocols
      then (Inr (length (sockets w)),
            (emit [Created (length (sockets w)) url protocols] w)\<lparr>sockets := sockets w @ [CONNECTING]\<rparr>)
      else (Inl SyntaxError, w))"

text \<open>
  \<^verbatim>\<open>socket.close()\<close>: starts the closing handshake of a handle that is connecting or
  open, and does nothing to one that is closing or closed.
\<close>

definition close_socket :: "nat \<Rightarrow> world \<Rightarrow> world" where
  "close_socket s w =
     (emit [CloseCalled s] w)
       \<lparr>sockets := (if readyState_of w s = CONNECTING \<or> readyState_of w s = OPEN
                    then (sockets w)[s := CLOSING] else sockets w)\<rparr>"

section \<open>connect, disconnect, sendCommand\<close>

text \<open>
  The guard of \<^verbatim>\<open>connect()\<close>:
  \<^verbatim>\<open>this.socket && (readyState === OPEN || readyState === CONNECTING)\<close>.
\<close>

definition connection_exists :: "world \<Rightarrow> bool" where
  "connection_exists w =
     (case socket w of
        None \<Rightarrow> False
      | Some s \<Rightarrow> readyState_of w s = OPEN \<or> readyState_of w s = CONNECTING)"

text \<open>
  \<^verbatim>\<open>if (authDetails.url) { url = authDetails.url; }\<close> over \<^verbatim>\<open>this.serverUrl\<close>: an
  absent field and the empty string are falsy.
\<close>

definition url_or :: "string option \<Rightarrow> string \<Rightarrow> string" where
  "url_or u server = (case u of None \<Rightarrow> server | Some x \<Rightarrow> if x = [] then server else x)"

text \<open>
  \<^verbatim>\<open>connect()\<close> of the hooks class. It returns nothing; an exception of the
  \<^verbatim>\<open>WebSocket\<close> constructor leaves it. The four \<^verbatim>\<open>addEventListener\<close> calls put
  no state into the client: the listeners are the \<open>on_..._hooks\<close> functions below, and
  the host calls them when the handle has an event.
\<close>

definition connect_hooks :: "host \<Rightarrow> world \<Rightarrow> exn option \<times> world" where
  "connect_hooks env w =
     (if connection_exists w then (None, w)
      else
        (case authStrategy w of
           Some authDetails \<Rightarrow>
             (let url = url_or (auth_url authDetails) (serverUrl w);
                  protocols = auth_protocols authDetails
              in case new_WebSocket env url protocols w of
                   (Inl e, w') \<Rightarrow> (Some e, w')
                 | (Inr s, w') \<Rightarrow>
                     (None,
                      (case auth_headers authDetails of
                         Some headers \<Rightarrow>
                           if has_setRequestHeader env
                           then emit (map (\<lambda>(key, val). HeaderSet s key val) headers)
                                  (w'\<lparr>socket := Some s\<rparr>)
                           else w'\<lparr>socket := Some s\<rparr>
                       | None \<Rightarrow> w'\<lparr>socket := Some s\<rparr>)))
         | None \<Rightarrow>
             (case new_WebSocket env (serverUrl w) None w of
                (Inl e, w') \<Rightarrow> (Some e, w')
              | (Inr s, w') \<Rightarrow> (None, w'\<lparr>socket := Some s\<rparr>))))"

definition connectionError :: "exn \<Rightarrow> payload" where
  "connectionError e =
     ErrorInfo ''connectionError'' ''Failed to create WebSocket connection'' (Caught e)"

text \<open>
  \<^verbatim>\<open>connect()\<close> of the other class: returns a boolean, and catches what the
  constructor throws.
\<close>

definition connect_client :: "host \<Rightarrow> world \<Rightarrow> (exn + bool) \<times> world" where
  "connect_client env w =
     (if connection_exists w then (Inr False, w)
      else
        (case (case authStrategy w of
                 Some authConfig \<Rightarrow>
                   new_WebSocket env (url_or (auth_url authConfig) (serverUrl w))
                     (auth_protocols authConfig) w
               | None \<Rightarrow> new_WebSocket env (serverUrl w) None w) of
           (Inr s, w') \<Rightarrow> (Inr True, w'\<lparr>socket := Some s\<rparr>)
         | (Inl e, w') \<Rightarrow>
             (case triggerEvent ''error'' (connectionError e) w' of
                (None, w'') \<Rightarrow> (Inr False, w'')
              | (Some e', w'') \<Rightarrow> (Inl e', w''))))"

definition disconnect_hooks :: "world \<Rightarrow> world" where
  "disconnect_hooks w =
     (case socket w of
        Some s \<Rightarrow> close_socket s (w\<lparr>autoReconnect := False\<rparr>)
      | None \<Rightarrow> w)"

definition disconnect_client :: "world \<Rightarrow> world" where
  "disconnect_client w =
     (case socket w of
        Some s \<Rightarrow> (close_socket s (w\<lparr>autoReconnect := False\<rparr>))\<lparr>socket := None\<rparr>
      | None \<Rightarrow> w)"

text \<open>
  The order in which JavaScript enumerates the own properties of an object: the keys
  that are array indices (a canonical decimal numeral below \<open>2^32 - 1\<close>) first, in
  ascending order, then the other keys in the order they were added.
\<close>

definition array_index :: "string \<Rightarrow> nat option" where
  "array_index key =
     (if key = [] \<or> (1 < length key \<and> hd key = CHR ''0'')
         \<or> \<not> list_all (\<lambda>c. 48 \<le> (of_char c :: nat) \<and> (of_char c :: nat) \<le> 57) key
      then None
      else
        (let n = foldl (\<lambda>a c. 10 * a + (of_char c - 48)) 0 key
         in if n < 2 ^ 32 - 1 then Some n else None))"

definition property_order :: "(string \<times> jsval) list \<Rightarrow> (string \<times> jsval) list" where
  "property_order props =
     sort_key (\<lambda>(key, val). case array_index key of None \<Rightarrow> 0 | Some n \<Rightarrow> n)
       (filter (\<lambda>(key, val). array_index key \<noteq> None) props)
     @ filter (\<lambda>(key, val). array_index key = None) props"

text \<open>
  \<^verbatim>\<open>{ action, ...data }\<close>: the properties of \<open>data\<close> are copied over the object that
  holds \<open>action\<close>; a property \<open>action\<close> of \<open>data\<close> replaces the value in place.
\<close>

definition spread :: "(string \<times> jsval) list \<Rightarrow> (string \<times> jsval) list \<Rightarrow> (string \<times> jsval) list" where
  "spread target source =
     property_order (foldl (\<lambda>obj (key, val). AList.update key val obj) target source)"

definition command :: "string \<Rightarrow> (string \<times> jsval) list \<Rightarrow> jsval" where
  "command action data = JObj (spread [(''action'', JStr action)] data)"

text \<open>
  \<^verbatim>\<open>sendCommand(action, data)\<close>. Inside the \<^verbatim>\<open>try\<close>: \<^verbatim>\<open>this.socket.send\<close> of a
  \<^verbatim>\<open>null\<close> socket, \<^verbatim>\<open>JSON.stringify\<close> and \<^verbatim>\<open>send\<close> can each throw; the
  \<^verbatim>\<open>catch\<close> returns \<^verbatim>\<open>false\<close>. Both classes have the same body (the hooks class
  builds the command before the \<^verbatim>\<open>try\<close>, the other class inside it).
\<close>

definition sendCommand_hooks :: "host \<Rightarrow> string \<Rightarrow> (string \<times> jsval) list \<Rightarrow> world \<Rightarrow> bool \<times> world" where
  "sendCommand_hooks env action data w =
     (if \<not> connected w then (False, w)
      else
        (let cmd = command action data in
         case socket w of
           None \<Rightarrow> (False, w)
         | Some s \<Rightarrow>
             (case JSON_stringify env cmd of
                None \<Rightarrow> (False, w)
              | Some text \<Rightarrow>
                  if send_throws env (readyState_of w s) then (False, w)
                  else (True, emit [SentFrame s text] w))))"

definition sendCommand_client :: "host \<Rightarrow> string \<Rightarrow> (string \<times> jsval) list \<Rightarrow> world \<Rightarrow> bool \<times> world" where
  "sendCommand_client env action data w =
     (if \<not> connected w then (False, w)
      else
        (let cmd = command action data in
         case socket w of
           None \<Rightarrow> (False, w)
         | Some s \<Rightarrow>
             (case JSON_stringify env cmd of
                None \<Rightarrow> (False, w)
              | Some text \<Rightarrow>
                  if send_throws env (readyState_of w s) then (False, w)
                  else (True, emit [SentFrame s text] w))))"

section \<open>The transport listeners\<close>

definition on_open_hooks :: "world \<Rightarrow> exn option \<times> world" where
  "on_open_hooks w =
     and_then (triggerEvent ''connected'' NoPayload (w\<lparr>connected := True, reconnectAttempts := 0\<rparr>))
       (\<lambda>w'. (None, notify (onConnectionChange w') (Flag True) w'))"

definition on_open_client :: "world \<Rightarrow> exn option \<times> world" where
  "on_open_client w =
     triggerEvent ''connected'' NoPayload (w\<lparr>connected := True, reconnectAttempts := 0\<rparr>)"

text \<open>
  The reconnection part of the \<^verbatim>\<open>'close'\<close> listener, the same text in both classes:
  the delay is the double \<^verbatim>\<open>this.reconnectDelay * Math.pow(1.5, this.reconnectAttempts - 1)\<close>.
\<close>

definition handle_reconnection :: "host \<Rightarrow> world \<Rightarrow> world" where
  "handle_reconnection env w =
     (if autoReconnect w \<and> reconnectAttempts w < maxReconnectAttempts w then
        (let w1 = w\<lparr>reconnectAttempts := reconnectAttempts w + 1\<rparr>;
             delay = multiply (reconnectDelay w1)
                       (Math_pow env (Finite (3 / 2)) (reconnectAttempts w1 - 1))
         in (emit [TimerSet delay] w1)\<lparr>timers := timers w1 @ [delay]\<rparr>)
      else w)"

definition on_close_hooks :: "host \<Rightarrow> nat \<Rightarrow> string \<Rightarrow> world \<Rightarrow> exn option \<times> world" where
  "on_close_hooks env code reason w =
     and_then (triggerEvent ''disconnected'' (CloseEvent code reason) (w\<lparr>connected := False\<rparr>))
       (\<lambda>w'. (None, handle_reconnection env (notify (onConnectionChange w') (Flag False) w')))"

definition on_close_client :: "host \<Rightarrow> nat \<Rightarrow> string \<Rightarrow> world \<Rightarrow> exn option \<times> world" where
  "on_close_client env code reason w =
     and_then (triggerEvent ''disconnected'' (CloseInfo code reason) (w\<lparr>connected := False\<rparr>))
       (\<lambda>w'. (None, handle_reconnection env w'))"

definition on_error_hooks :: "world \<Rightarrow> exn option \<times> world" where
  "on_error_hooks w = triggerEvent ''error'' ErrorEvent w"

definition on_error_client :: "world \<Rightarrow> exn option \<times> world" where
  "on_error_client w =
     triggerEvent ''error'' (ErrorInfo ''socketError'' ''WebSocket connection error'' ErrorEvent) w"

text \<open>
  The timer callback \<^verbatim>\<open>() => this.connect()\<close>: the pending timer \<open>i\<close> fires and is
  gone; what \<^verbatim>\<open>connect()\<close> returns or throws is dropped.
\<close>

definition retry_hooks :: "host \<Rightarrow> nat \<Rightarrow> world \<Rightarrow> world" where
  "retry_hooks env i w =
     snd (connect_hooks env (w\<lparr>timers := take i (timers w) @ drop (Suc i) (timers w)\<rparr>))"

definition retry_client :: "host \<Rightarrow> nat \<Rightarrow> world \<Rightarrow> world" where
  "retry_client env i w =
     snd (connect_client env (w\<lparr>timers := take i (timers w) @ drop (Suc i) (timers w)\<rparr>))"

section \<open>The client in its event loop\<close>

text \<open>
  One turn of the event loop: the caller invokes a method, the transport delivers an
  event of a handle to its listener, or a pending timer fires. A transport event is
  possible only in a \<^verbatim>\<open>readyState\<close> that allows it (\<open>None\<close> otherwise); an
  exception that leaves a method or a listener ends the turn, the world staying as the
  exception left it.
\<close>

datatype action =
    Connect
  | Disconnect
  | SendCommand string "(string \<times> jsval) list"
  | On string callback
  | Unsubscribe string callback
  | SocketOpen nat
  | SocketMessage nat string
  | SocketError nat
  | SocketClose nat nat string
  | TimerFires nat

fun step_hooks :: "host \<Rightarrow> action \<Rightarrow> world \<Rightarrow> world option" where
  "step_hooks env Connect w = Some (snd (connect_hooks env w))"
| "step_hooks env Disconnect w = Some (disconnect_hooks w)"
| "step_hooks env (SendCommand a d) w = Some (snd (sendCommand_hooks env a d w))"
| "step_hooks env (On event cb) w = Some (snd (on_hooks event cb w))"
| "step_hooks env (Unsubscribe event cb) w = Some (snd (unsubscribe_hooks event cb w))"
| "step_hooks env (SocketOpen s) w =
     (if readyState_of w s = CONNECTING
      then Some (snd (on_open_hooks (w\<lparr>sockets := (sockets w)[s := OPEN]\<rparr>)))
      else None)"
| "step_hooks env (SocketMessage s data) w =
     (if readyState_of w s = OPEN \<or> readyState_of w s = CLOSING
      then Some (snd (on_message_hooks env data w))
      else None)"
| "step_hooks env (SocketError s) w =
     (if s < length (sockets w) then Some (snd (on_error_hooks w)) else None)"
| "step_hooks env (SocketClose s code reason) w =
     (if s < length (sockets w) \<and> readyState_of w s \<noteq> CLOSED
      then Some (snd (on_close_hooks env code reason (w\<lparr>sockets := (sockets w)[s := CLOSED]\<rparr>)))
      else None)"
| "step_hooks env (TimerFires i) w =
     (if i < length (timers w) then Some (retry_hooks env i w) else None)"

fun step_client :: "host \<Rightarrow> action \<Rightarrow> world \<Rightarrow> world option" where
  "step_client env Connect w = Some (snd (connect_client env w))"
| "step_client env Disconnect w = Some (disconnect_client w)"
| "step_client env (SendCommand a d) w = Some (snd (sendCommand_client env a d w))"
| "step_client env (On event cb) w = Some (snd (on_client event cb w))"
| "step_client env (Unsubscribe event cb) w = Some (snd (unsubscribe_client event cb w))"
| "step_client env (SocketOpen s) w =
     (if readyState_of w s = CONNECTING
      then Some (snd (on_open_client (w\<lparr>sockets := (sockets w)[s := OPEN]\<rparr>)))
      else None)"
| "step_client env (SocketMessage s data) w =
     (if readyState_of w s = OPEN \<or> readyState_of w s = CLOSING
      then Some (snd (on_message_client env data w))
      else None)"
| "step_client env (SocketError s) w =
     (if s < length (sockets w) then Some (snd (on_error_client w)) else None)"
| "step_client env (SocketClose s code reason) w =
     (if s < length (sockets w) \<and> readyState_of w s \<noteq> CLOSED
      then Some (snd (on_close_client env code reason (w\<lparr>sockets := (sockets w)[s := CLOSED]\<rparr>)))
      else None)"
| "step_client env (TimerFires i) w =
     (if i < length (timers w) then Some (retry_client env i w) else None)"

fun run :: "(action \<Rightarrow> world \<Rightarrow> world option) \<Rightarrow> action list \<Rightarrow> world \<Rightarrow> world option" where
  "run step [] w = Some w"
| "run step (a # as) w = (case step a w of None \<Rightarrow> None | Some w' \<Rightarrow> run step as w')"

text \<open>The handles that are connecting or open.\<close>

definition live_handles :: "world \<Rightarrow> nat list" where
  "live_handles w =
     filter (\<lambda>s. sockets w ! s = CONNECTING \<or> sockets w ! s = OPEN) [0..<length (sockets w)]"


text \<open>The handles created, in order.\<close>

fun created :: "effect list \<Rightarrow> nat list" where
  "created [] = []"
| "created (Created s url protocols # es) = s # created es"
| "created (_ # es) = created es"



definition transport :: "world \<Rightarrow> nat option \<times> readyState list" where
  "transport w = (socket w, sockets w)"

text \<open>Every handle that is connecting or open is the one the client holds.\<close>

definition one_live :: "world \<Rightarrow> bool" where
  "one_live w =
     (\<forall>s < length (sockets w).
        sockets w ! s = CONNECTING \<or> sockets w ! s = OPEN \<longrightarrow> socket w = Some s)"

section \<open>The React hook\<close>

text \<open>
  The value a \<^verbatim>\<open>ShoehiveContext\<close> carries, by its data fields (the methods are left
  out: the hook only tests the value for truthiness). \<open>None\<close> is \<^verbatim>\<open>null\<close>.
\<close>

record context_value =
  cv_client :: "world option"
  cv_isConnected :: bool
  cv_connectionState :: "string option"
  cv_playerState :: "jsval option"
  cv_lobbyState :: "jsval option"
  cv_tableState :: "jsval option"

text \<open>
  React's \<^verbatim>\<open>createContext(defaultValue)\<close> and \<^verbatim>\<open>useContext(context)\<close>: a context
  is known by its default value, and a component reads the value of the nearest
  provider above it, or the default value when there is none.
\<close>

definition createContext :: "context_value option \<Rightarrow> context_value option" where
  "createContext defaultValue = defaultValue"

definition useContext :: "context_value option \<Rightarrow> context_value option option \<Rightarrow> context_value option" where
  "useContext context provider = (case provider of None \<Rightarrow> context | Some v \<Rightarrow> v)"

text \<open>\<^verbatim>\<open>src/context/ShoehiveContext.js\<close>: the default value is an object.\<close>

definition ShoehiveContext :: "context_value option" where
  "ShoehiveContext =
     createContext (Some \<lparr> cv_client = None, cv_isConnected = False,
                          cv_connectionState = Some ''disconnected'',
                          cv_playerState = None, cv_lobbyState = None, cv_tableState = None \<rparr>)"

text \<open>\<^verbatim>\<open>src/hooks/ShoehiveClient.jsx\<close>: \<^verbatim>\<open>createContext(null)\<close>.\<close>

definition ShoehiveContext_jsx :: "context_value option" where
  "ShoehiveContext_jsx = createContext None"

text \<open>
  \<^verbatim>\<open>useShoehive\<close> of \<^verbatim>\<open>src/hooks/useShoehive.js\<close>, which imports
  \<^verbatim>\<open>../context/ShoehiveContext\<close>, and the hook of the \<^verbatim>\<open>.jsx\<close> file. The
  argument is the value of the nearest \<^verbatim>\<open>ShoehiveProvider\<close> above the caller, if
  there is one.
\<close>

definition useShoehive :: "context_value option option \<Rightarrow> exn + context_value" where
  "useShoehive provider =
     (let context = useContext ShoehiveContext provider in
      case context of None \<Rightarrow> Inl UsageError | Some v \<Rightarrow> Inr v)"

definition useShoehive_jsx :: "context_value option option \<Rightarrow> exn + context_value" where
  "useShoehive_jsx provider =
     (let context = useContext ShoehiveContext_jsx provider in
      case context of None \<Rightarrow> Inl UsageError | Some v \<Rightarrow> Inr v)"

section \<open>A host and a client to evaluate on\<close>

text \<open>
  A host whose \<^verbatim>\<open>JSON.parse\<close> and \<^verbatim>\<open>JSON.stringify\<close> are given on the texts used
  below, whose \<^verbatim>\<open>WebSocket\<close> accepts every URL, has no \<^verbatim>\<open>setRequestHeader\<close> and
  throws from \<^verbatim>\<open>send\<close> while connecting, whose \<^verbatim>\<open>Math.pow\<close> is correctly
  rounded, with the message types the \<^verbatim>\<open>.jsx\<close>
  copy of the hooks class writes out.
\<close>

definition player_message :: jsval where
  "player_message = JObj [(''type'', JStr ''player:state''), (''name'', JStr ''ann'')]"

definition player_frame :: string where
  \<open>player_frame = ''{"type":"player:state","name":"ann"}''\<close>

definition chat_message :: jsval where
  "chat_message = JObj [(''type'', JStr ''chat''), (''text'', JStr ''hi'')]"

definition chat_frame :: string where
  \<open>chat_frame = ''{"type":"chat","text":"hi"}''\<close>

definition message_message :: jsval where
  "message_message = JObj [(''type'', JStr ''message'')]"

definition message_frame :: string where
  \<open>message_frame = ''{"type":"message"}''\<close>

definition constructor_message :: jsval where
  "constructor_message = JObj [(''type'', JStr ''constructor'')]"

definition constructor_frame :: string where
  \<open>constructor_frame = ''{"type":"constructor"}''\<close>

definition object_type_message :: jsval where
  "object_type_message = JObj [(''type'', JObj [(''toString'', JNum ''1'')])]"

definition object_type_frame :: string where
  \<open>object_type_frame = ''{"type":{"toString":1}}''\<close>

definition example_frames :: "(string \<times> jsval) list" where
  "example_frames =
     [(player_frame, player_message), (chat_frame, chat_message),
      (message_frame, message_message), (constructor_frame, constructor_message),
      (object_type_frame, object_type_message), (''null'', JNull)]"

text \<open>A \<^verbatim>\<open>Math.pow\<close> that returns the double nearest to the exact power.\<close>

definition pow_rounded :: "number \<Rightarrow> nat \<Rightarrow> number" where
  "pow_rounded b k = (case b of Finite x \<Rightarrow> to_double (x ^ k) | _ \<Rightarrow> NaN)"

definition chat_command_frame :: string where
  \<open>chat_command_frame = ''{"action":"chat","text":"hi"}''\<close>

definition example_host :: host where
  "example_host =
     \<lparr> JSON_parse = map_of example_frames,
       JSON_stringify = (\<lambda>v. if v = command ''chat'' [(''text'', JStr ''hi'')]
                              then Some chat_command_frame else None),
       ws_accepts = (\<lambda>url protocols. True),
       has_setRequestHeader = False,
       send_throws = (\<lambda>state. state = CONNECTING),
       Math_pow = pow_rounded,
       PLAYER_STATE = ''player:state'',
       LOBBY_STATE = ''lobby:state'',
       TABLE_STATE = ''table:state'',
       ERROR = ''error'' \<rparr>"

definition no_options :: options where
  "no_options =
     \<lparr> opt_maxReconnectAttempts = None, opt_reconnectDelay = None,
       opt_autoReconnect = None, opt_authStrategy = None \<rparr>"

definition example_client :: world where
  "example_client = new_ShoehiveClient ''wss://game.example'' no_options"






text \<open>The example client once its first handle is open.\<close>

definition open_client :: world where
  "open_client = example_client\<lparr>socket := Some 0, connected := True, sockets := [OPEN]\<rparr>"

section \<open>The example host and client\<close>

lemma example_host_constants:
  "PLAYER_STATE example_host = ''player:state''"
  "LOBBY_STATE example_host = ''lobby:state''"
  "TABLE_STATE example_host = ''table:state''"
  "ERROR example_host = ''error''"
  "Math_pow example_host = pow_rounded"
  by (simp_all add: example_host_def)

lemma example_parse:
  "JSON_parse example_host player_frame = Some player_message"
  "JSON_parse example_host chat_frame = Some chat_message"
  "JSON_parse example_host message_frame = Some message_message"
  "JSON_parse example_host constructor_frame = Some constructor_message"
  "JSON_parse example_host object_type_frame = Some object_type_message"
  "JSON_parse example_host ''null'' = Some JNull"
  "JSON_parse example_host ''{oops'' = None"
  by (simp_all add: example_host_def example_frames_def player_frame_def chat_frame_def
      message_frame_def constructor_frame_def object_type_frame_def)

lemma example_types:
  "message_type player_message = Inr (Some (JStr ''player:state''))"
  "message_type chat_message = Inr (Some (JStr ''chat''))"
  "message_type message_message = Inr (Some (JStr ''message''))"
  "message_type constructor_message = Inr (Some (JStr ''constructor''))"
  "message_type object_type_message = Inr (Some (JObj [(''toString'', JNum ''1'')]))"
  "message_type JNull = Inl TypeError"
  by (simp_all add: message_type_def player_message_def chat_message_def message_message_def
      constructor_message_def object_type_message_def)

lemma example_keys:
  "to_key (Some (JStr ''player:state'')) = Inr ''player:state''"
  "to_key (Some (JStr ''chat'')) = Inr ''chat''"
  "to_key (Some (JStr ''message'')) = Inr ''message''"
  "to_key (Some (JStr ''constructor'')) = Inr ''constructor''"
  "to_key (Some (JObj [(''toString'', JNum ''1'')])) = Inl TypeError"
  "''player:state'' \<notin> set Object_prototype_keys"
  "''chat'' \<notin> set Object_prototype_keys"
  "''message'' \<notin> set Object_prototype_keys"
  "''error'' \<notin> set Object_prototype_keys"
  by (simp_all add: to_key_def Object_prototype_keys_def)

lemma example_client_fields:
  "eventHandlers example_client = Map.empty"
  "trace example_client = []"
  "connected example_client = False"
  "socket example_client = None"
  "sockets example_client = []"
  "timers example_client = []"
  "autoReconnect example_client = True"
  "reconnectAttempts example_client = 0"
  "maxReconnectAttempts example_client = 5"
  "reconnectDelay example_client = Finite 1000"
  "authStrategy example_client = None"
  by (simp_all add: example_client_def new_ShoehiveClient_def no_options_def or_default_def
      number_or_def)

section \<open>Traces and the subscription table\<close>

lemma fired_append: "fired (xs @ ys) = fired xs @ fired ys"
  by (induction xs rule: fired.induct) auto

lemma fired_Invoked: "fired (map (\<lambda>cb. Invoked cb d) hs) = []"
  by (induction hs) auto

lemma calls_of_append: "calls_of cb (xs @ ys) = calls_of cb xs @ calls_of cb ys"
  by (induction cb xs rule: calls_of.induct) auto

lemma calls_of_Invoked: "calls_of cb (map (\<lambda>x. Invoked x d) hs) = replicate (count_list hs cb) d"
  by (induction hs) auto

lemma emit_emit: "emit es (emit fs w) = emit (fs @ es) w"
  by (simp add: emit_def)

lemma fired_between_emit: "fired_between w (emit es w) = fired es"
  by (simp add: fired_between_def emit_def)

lemma calls_between_emit: "calls_between cb w (emit es w) = calls_of cb es"
  by (simp add: calls_between_def emit_def)

lemma handlers_at_emit: "handlers_at (emit es w) e = handlers_at w e"
  by (simp add: handlers_at_def emit_def)

lemma handlers_emit: "handlers (emit es w) e = handlers w e"
  by (simp add: handlers_def emit_def)

lemma triggerEvent_ok:
  "handlers_at w e \<noteq> Inherited \<Longrightarrow>
   triggerEvent e d w = (None, emit (Fired e d # map (\<lambda>cb. Invoked cb d) (handlers w e)) w)"
  by (auto simp: triggerEvent_def handlers_at_def handlers_def emit_def split: option.splits if_splits)

lemma triggerEvent_Inherited:
  "handlers_at w e = Inherited \<Longrightarrow> triggerEvent e d w = (Some TypeError, emit [Fired e d] w)"
  by (simp add: triggerEvent_def)

lemma not_Inherited: "e \<notin> set Object_prototype_keys \<Longrightarrow> handlers_at w e \<noteq> Inherited"
  by (simp add: handlers_at_def split: option.splits)

lemma own_not_Inherited: "eventHandlers w e = Some hs \<Longrightarrow> handlers_at w e \<noteq> Inherited"
  by (simp add: handlers_at_def)

section \<open>on, the unsubscribe closure and triggerEvent\<close>

lemma on_hooks_ok:
  "handlers_at w e \<noteq> Inherited \<Longrightarrow>
   on_hooks e cb w = (Inr (unsubscribe_hooks e cb),
                      w\<lparr>eventHandlers := (eventHandlers w)(e \<mapsto> handlers w e @ [cb])\<rparr>)"
  by (auto simp: on_hooks_def handlers_at_def handlers_def split: option.splits if_splits)

lemma on_client_ok:
  "handlers_at w e \<noteq> Inherited \<Longrightarrow>
   on_client e cb w = (Inr (unsubscribe_client e cb),
                      w\<lparr>eventHandlers := (eventHandlers w)(e \<mapsto> handlers w e @ [cb])\<rparr>)"
  by (auto simp: on_client_def handlers_at_def handlers_def split: option.splits if_splits)

lemma unsubscribe_hooks_Own:
  "eventHandlers w e = Some hs \<Longrightarrow>
   unsubscribe_hooks e cb w =
     (None, w\<lparr>eventHandlers := (eventHandlers w)(e \<mapsto> filter (\<lambda>x. x \<noteq> cb) hs)\<rparr>)"
  by (simp add: unsubscribe_hooks_def handlers_at_def)

lemma unsubscribe_client_Own:
  "eventHandlers w e = Some hs \<Longrightarrow>
   unsubscribe_client e cb w =
     (None, w\<lparr>eventHandlers := (eventHandlers w)(e \<mapsto> filter (\<lambda>x. x \<noteq> cb) hs)\<rparr>)"
  by (simp add: unsubscribe_client_def handlers_at_def)

lemma handlers_at_upd:
  "handlers_at (w\<lparr>eventHandlers := (eventHandlers w)(e \<mapsto> hs)\<rparr>) e = Own hs"
  by (simp add: handlers_at_def)

lemma handlers_upd:
  "handlers (w\<lparr>eventHandlers := (eventHandlers w)(e \<mapsto> hs)\<rparr>) e = hs"
  by (simp add: handlers_def)

lemma triggerEvent_calls:
  "handlers_at w e \<noteq> Inherited \<Longrightarrow>
   calls_between cb w (snd (triggerEvent e d w)) = replicate (count_list (handlers w e) cb) d"
  by (simp add: triggerEvent_ok calls_between_emit calls_of_Invoked)

lemma connected_not_inherited: "''connected'' \<notin> set Object_prototype_keys"
  by (simp add: Object_prototype_keys_def)

text \<open>
  Claim C7. In a client with no handlers for \<^verbatim>\<open>'connected'\<close>, registering two
  different callbacks \<open>c1\<close> then \<open>c2\<close> with \<^verbatim>\<open>on\<close> and calling the closure returned
  for \<open>c1\<close> leaves the list \<open>[c2]\<close>, and the next \<^verbatim>\<open>'connected'\<close> event calls \<open>c2\<close>
  only (both classes). Triggering an event calls every callback registered for its name,
  in the order of the list, and \<^verbatim>\<open>on\<close> appends to the end of the list, so the order is
  the order of registration.
\<close>

theorem C7_unsubscribe_first_of_two:
  "(eventHandlers w ''connected'' = None \<and> c1 \<noteq> c2 \<longrightarrow>
      (\<exists>u1 u2 w1 w2 w3.
         on_hooks ''connected'' c1 w = (Inr u1, w1) \<and>
         on_hooks ''connected'' c2 w1 = (Inr u2, w2) \<and>
         u1 w2 = (None, w3) \<and>
         eventHandlers w3 ''connected'' = Some [c2] \<and>
         triggerEvent ''connected'' NoPayload w3 =
           (None, emit [Fired ''connected'' NoPayload, Invoked c2 NoPayload] w3) \<and>
         trace (snd (triggerEvent ''connected'' NoPayload w3)) =
           trace w3 @ [Fired ''connected'' NoPayload, Invoked c2 NoPayload] \<and>
         calls_between c1 w3 (snd (triggerEvent ''connected'' NoPayload w3)) = [] \<and>
         calls_between c2 w3 (snd (triggerEvent ''connected'' NoPayload w3)) = [NoPayload])
    \<and> (\<exists>u1 u2 w1 w2 w3.
         on_client ''connected'' c1 w = (Inr u1, w1) \<and>
         on_client ''connected'' c2 w1 = (Inr u2, w2) \<and>
         u1 w2 = (None, w3) \<and>
         eventHandlers w3 ''connected'' = Some [c2] \<and>
         triggerEvent ''connected'' NoPayload w3 =
           (None, emit [Fired ''connected'' NoPayload, Invoked c2 NoPayload] w3) \<and>
         trace (snd (triggerEvent ''connected'' NoPayload w3)) =
           trace w3 @ [Fired ''connected'' NoPayload, Invoked c2 NoPayload] \<and>
         calls_between c1 w3 (snd (triggerEvent ''connected'' NoPayload w3)) = [] \<and>
         calls_between c2 w3 (snd (triggerEvent ''connected'' NoPayload w3)) = [NoPayload]))
   \<and> (\<forall>event data. handlers_at w event \<noteq> Inherited \<longrightarrow>
        triggerEvent event data w =
          (None, emit (Fired event data # map (\<lambda>cb. Invoked cb data) (handlers w event)) w) \<and>
        trace (snd (triggerEvent event data w)) =
          trace w @ Fired event data # map (\<lambda>cb. Invoked cb data) (handlers w event) \<and>
        (\<forall>cb. calls_between cb w (snd (triggerEvent event data w)) =
           replicate (count_list (handlers w event) cb) data))
   \<and> (\<forall>event callback. handlers_at w event \<noteq> Inherited \<longrightarrow>
        handlers (snd (on_hooks event callback w)) event = handlers w event @ [callback] \<and>
        handlers (snd (on_client event callback w)) event = handlers w event @ [callback])"
proof (intro conjI allI impI)
  assume a: "eventHandlers w ''connected'' = None \<and> c1 \<noteq> c2"
  show "\<exists>u1 u2 w1 w2 w3.
         on_hooks ''connected'' c1 w = (Inr u1, w1) \<and>
         on_hooks ''connected'' c2 w1 = (Inr u2, w2) \<and>
         u1 w2 = (None, w3) \<and>
         eventHandlers w3 ''connected'' = Some [c2] \<and>
         triggerEvent ''connected'' NoPayload w3 =
           (None, emit [Fired ''connected'' NoPayload, Invoked c2 NoPayload] w3) \<and>
         trace (snd (triggerEvent ''connected'' NoPayload w3)) =
           trace w3 @ [Fired ''connected'' NoPayload, Invoked c2 NoPayload] \<and>
         calls_between c1 w3 (snd (triggerEvent ''connected'' NoPayload w3)) = [] \<and>
         calls_between c2 w3 (snd (triggerEvent ''connected'' NoPayload w3)) = [NoPayload]"
    using a
    by (simp add: on_hooks_def unsubscribe_hooks_def handlers_at_def Object_prototype_keys_def
        triggerEvent_def emit_def calls_between_def)
  show "\<exists>u1 u2 w1 w2 w3.
         on_client ''connected'' c1 w = (Inr u1, w1) \<and>
         on_client ''connected'' c2 w1 = (Inr u2, w2) \<and>
         u1 w2 = (None, w3) \<and>
         eventHandlers w3 ''connected'' = Some [c2] \<and>
         triggerEvent ''connected'' NoPayload w3 =
           (None, emit [Fired ''connected'' NoPayload, Invoked c2 NoPayload] w3) \<and>
         trace (snd (triggerEvent ''connected'' NoPayload w3)) =
           trace w3 @ [Fired ''connected'' NoPayload, Invoked c2 NoPayload] \<and>
         calls_between c1 w3 (snd (triggerEvent ''connected'' NoPayload w3)) = [] \<and>
         calls_between c2 w3 (snd (triggerEvent ''connected'' NoPayload w3)) = [NoPayload]"
    using a
    by (simp add: on_client_def unsubscribe_client_def handlers_at_def Object_prototype_keys_def
        triggerEvent_def emit_def calls_between_def)
next
  fix event data
  assume ni: "handlers_at w event \<noteq> Inherited"
  show "triggerEvent event data w =
          (None, emit (Fired event data # map (\<lambda>cb. Invoked cb data) (handlers w event)) w)"
    by (rule triggerEvent_ok [OF ni])
  show "trace (snd (triggerEvent event data w)) =
          trace w @ Fired event data # map (\<lambda>cb. Invoked cb data) (handlers w event)"
    by (simp add: triggerEvent_ok [OF ni] emit_def)
  fix cb
  show "calls_between cb w (snd (triggerEvent event data w)) =
           replicate (count_list (handlers w event) cb) data"
    by (rule triggerEvent_calls [OF ni])
next
  fix event callback
  assume ni: "handlers_at w event \<noteq> Inherited"
  show "handlers (snd (on_hooks event callback w)) event = handlers w event @ [callback]"
    by (simp add: on_hooks_ok [OF ni] handlers_upd)
  show "handlers (snd (on_client event callback w)) event = handlers w event @ [callback]"
    by (simp add: on_client_ok [OF ni] handlers_upd)
qed

theorem C7_witness:
  "(\<exists>u1 u2 w1 w2 w3.
         on_hooks ''connected'' 1 example_client = (Inr u1, w1) \<and>
         on_hooks ''connected'' 2 w1 = (Inr u2, w2) \<and>
         u1 w2 = (None, w3) \<and>
         eventHandlers w3 ''connected'' = Some [2] \<and>
         triggerEvent ''connected'' NoPayload w3 =
           (None, emit [Fired ''connected'' NoPayload, Invoked 2 NoPayload] w3) \<and>
         trace (snd (triggerEvent ''connected'' NoPayload w3)) =
           trace w3 @ [Fired ''connected'' NoPayload, Invoked 2 NoPayload] \<and>
         calls_between 1 w3 (snd (triggerEvent ''connected'' NoPayload w3)) = [] \<and>
         calls_between 2 w3 (snd (triggerEvent ''connected'' NoPayload w3)) = [NoPayload])
   \<and> trace (snd (triggerEvent ''error'' ErrorEvent example_client)) = [Fired ''error'' ErrorEvent]
   \<and> handlers (snd (on_client ''chat'' 7 example_client)) ''chat'' = [7]"
proof -
  have hyp: "eventHandlers example_client ''connected'' = None \<and> (1::nat) \<noteq> 2"
    by (simp add: example_client_fields)
  have ni: "handlers_at example_client ''error'' \<noteq> Inherited"
    by (rule not_Inherited [OF example_keys(9)])
  have ni2: "handlers_at example_client ''chat'' \<noteq> Inherited"
    by (rule not_Inherited [OF example_keys(7)])
  note inst = C7_unsubscribe_first_of_two [where w = example_client and ?c1.0 = 1 and ?c2.0 = 2]
  from inst [THEN conjunct1, THEN mp, OF hyp, THEN conjunct1]
  have a: "\<exists>u1 u2 w1 w2 w3.
         on_hooks ''connected'' 1 example_client = (Inr u1, w1) \<and>
         on_hooks ''connected'' 2 w1 = (Inr u2, w2) \<and>
         u1 w2 = (None, w3) \<and>
         eventHandlers w3 ''connected'' = Some [2] \<and>
         triggerEvent ''connected'' NoPayload w3 =
           (None, emit [Fired ''connected'' NoPayload, Invoked 2 NoPayload] w3) \<and>
         trace (snd (triggerEvent ''connected'' NoPayload w3)) =
           trace w3 @ [Fired ''connected'' NoPayload, Invoked 2 NoPayload] \<and>
         calls_between 1 w3 (snd (triggerEvent ''connected'' NoPayload w3)) = [] \<and>
         calls_between 2 w3 (snd (triggerEvent ''connected'' NoPayload w3)) = [NoPayload]" .
  from inst [THEN conjunct2, THEN conjunct1, THEN spec, THEN spec, THEN mp, OF ni,
      THEN conjunct2, THEN conjunct1]
  have b: "trace (snd (triggerEvent ''error'' ErrorEvent example_client)) = [Fired ''error'' ErrorEvent]"
    by (simp add: example_client_fields handlers_def)
  from inst [THEN conjunct2, THEN conjunct2, THEN spec, THEN spec, THEN mp, OF ni2, THEN conjunct2]
  have c: "handlers (snd (on_client ''chat'' 7 example_client)) ''chat'' = [7]"
    by (simp add: example_client_fields handlers_def)
  show ?thesis
    using a b c by (simp only: simp_thms)
qed

lemma handlers_at_Own_iff: "handlers_at w e = Own hs \<longleftrightarrow> eventHandlers w e = Some hs"
  by (auto simp: handlers_at_def split: option.splits)

lemma handlers_of_Own: "handlers_at w e = Own hs \<Longrightarrow> handlers w e = hs"
  by (simp add: handlers_at_Own_iff handlers_def)

lemma on_hooks_handlers_at:
  "handlers_at w e \<noteq> Inherited \<Longrightarrow>
   handlers_at (snd (on_hooks e cb w)) e = Own (handlers w e @ [cb])"
  by (simp add: on_hooks_ok handlers_at_def)

lemma on_client_handlers_at:
  "handlers_at w e \<noteq> Inherited \<Longrightarrow>
   handlers_at (snd (on_client e cb w)) e = Own (handlers w e @ [cb])"
  by (simp add: on_client_ok handlers_at_def)

lemma iterate_on:
  assumes step: "\<And>v. handlers_at v e \<noteq> Inherited \<Longrightarrow> handlers_at (f v) e = Own (handlers v e @ [cb])"
    and ni: "handlers_at w e \<noteq> Inherited"
  shows "0 < n \<Longrightarrow> handlers_at ((f ^^ n) w) e = Own (handlers w e @ replicate n cb)"
proof (induction n)
  case 0
  then show ?case by simp
next
  case (Suc m)
  show ?case
  proof (cases "m = 0")
    case True
    then show ?thesis using step [OF ni] by simp
  next
    case False
    then have ih: "handlers_at ((f ^^ m) w) e = Own (handlers w e @ replicate m cb)"
      using Suc.IH by simp
    then have "handlers_at ((f ^^ m) w) e \<noteq> Inherited"
      by simp
    from step [OF this] show ?thesis
      by (simp add: handlers_of_Own [OF ih] replicate_append_same)
  qed
qed

lemma count_list_filter_neq: "count_list (filter (\<lambda>x. x \<noteq> cb) hs) cb = 0"
  by (induction hs) auto

text \<open>
  Claim C10. When the same callback has been registered \<open>n \<ge> 2\<close> times for an event
  (\<open>n\<close> calls of \<^verbatim>\<open>on\<close>, each returning the same closure), one call of the closure
  filters every occurrence out of the list: the list is the old one without the callback,
  and the next event of that name calls the callback zero times (both classes).
\<close>

theorem C10_unsubscribe_removes_every_copy:
  "handlers_at w event \<noteq> Inherited \<and> 2 \<le> n \<longrightarrow>
     (\<exists>w'. unsubscribe_hooks event cb (((\<lambda>v. snd (on_hooks event cb v)) ^^ n) w) = (None, w') \<and>
        fst (on_hooks event cb w) = Inr (unsubscribe_hooks event cb) \<and>
        handlers (((\<lambda>v. snd (on_hooks event cb v)) ^^ n) w) event = handlers w event @ replicate n cb \<and>
        handlers w' event = filter (\<lambda>x. x \<noteq> cb) (handlers w event) \<and>
        count_list (handlers w' event) cb = 0 \<and>
        (\<forall>data. calls_between cb w' (snd (triggerEvent event data w')) = []))
   \<and> (\<exists>w'. unsubscribe_client event cb (((\<lambda>v. snd (on_client event cb v)) ^^ n) w) = (None, w') \<and>
        fst (on_client event cb w) = Inr (unsubscribe_client event cb) \<and>
        handlers (((\<lambda>v. snd (on_client event cb v)) ^^ n) w) event = handlers w event @ replicate n cb \<and>
        handlers w' event = filter (\<lambda>x. x \<noteq> cb) (handlers w event) \<and>
        count_list (handlers w' event) cb = 0 \<and>
        (\<forall>data. calls_between cb w' (snd (triggerEvent event data w')) = []))"
proof (intro impI conjI)
  assume a: "handlers_at w event \<noteq> Inherited \<and> 2 \<le> n"
  then have ni: "handlers_at w event \<noteq> Inherited" and n: "0 < n"
    by simp_all
  let ?hs = "handlers w event @ replicate n cb"
  have flt: "filter (\<lambda>x. x \<noteq> cb) ?hs = filter (\<lambda>x. x \<noteq> cb) (handlers w event)"
    by simp
  {
    let ?wn = "((\<lambda>v. snd (on_hooks event cb v)) ^^ n) w"
    have own: "handlers_at ?wn event = Own ?hs"
      by (rule iterate_on [OF on_hooks_handlers_at ni n])
    then have e: "eventHandlers ?wn event = Some ?hs"
      by (simp add: handlers_at_Own_iff)
    let ?w' = "?wn\<lparr>eventHandlers := (eventHandlers ?wn)(event \<mapsto> filter (\<lambda>x. x \<noteq> cb) ?hs)\<rparr>"
    have u: "unsubscribe_hooks event cb ?wn = (None, ?w')"
      by (rule unsubscribe_hooks_Own [OF e])
    have h': "handlers ?w' event = filter (\<lambda>x. x \<noteq> cb) (handlers w event)"
      by (simp only: handlers_upd flt)
    have ni': "handlers_at ?w' event \<noteq> Inherited"
      by (simp only: handlers_at_upd slot.distinct not_False_eq_True)
    have "\<forall>data. calls_between cb ?w' (snd (triggerEvent event data ?w')) = []"
      by (simp only: triggerEvent_calls [OF ni'] h' count_list_filter_neq replicate_0 simp_thms)
    with u h' handlers_of_Own [OF own]
    show "\<exists>w'. unsubscribe_hooks event cb ?wn = (None, w') \<and>
        fst (on_hooks event cb w) = Inr (unsubscribe_hooks event cb) \<and>
        handlers ?wn event = handlers w event @ replicate n cb \<and>
        handlers w' event = filter (\<lambda>x. x \<noteq> cb) (handlers w event) \<and>
        count_list (handlers w' event) cb = 0 \<and>
        (\<forall>data. calls_between cb w' (snd (triggerEvent event data w')) = [])"
      by (intro exI [of _ ?w']) (simp add: on_hooks_ok [OF ni] count_list_filter_neq)
  }
  {
    let ?wn = "((\<lambda>v. snd (on_client event cb v)) ^^ n) w"
    have own: "handlers_at ?wn event = Own ?hs"
      by (rule iterate_on [OF on_client_handlers_at ni n])
    then have e: "eventHandlers ?wn event = Some ?hs"
      by (simp add: handlers_at_Own_iff)
    let ?w' = "?wn\<lparr>eventHandlers := (eventHandlers ?wn)(event \<mapsto> filter (\<lambda>x. x \<noteq> cb) ?hs)\<rparr>"
    have u: "unsubscribe_client event cb ?wn = (None, ?w')"
      by (rule unsubscribe_client_Own [OF e])
    have h': "handlers ?w' event = filter (\<lambda>x. x \<noteq> cb) (handlers w event)"
      by (simp only: handlers_upd flt)
    have ni': "handlers_at ?w' event \<noteq> Inherited"
      by (simp only: handlers_at_upd slot.distinct not_False_eq_True)
    have "\<forall>data. calls_between cb ?w' (snd (triggerEvent event data ?w')) = []"
      by (simp only: triggerEvent_calls [OF ni'] h' count_list_filter_neq replicate_0 simp_thms)
    with u h' handlers_of_Own [OF own]
    show "\<exists>w'. unsubscribe_client event cb ?wn = (None, w') \<and>
        fst (on_client event cb w) = Inr (unsubscribe_client event cb) \<and>
        handlers ?wn event = handlers w event @ replicate n cb \<and>
        handlers w' event = filter (\<lambda>x. x \<noteq> cb) (handlers w event) \<and>
        count_list (handlers w' event) cb = 0 \<and>
        (\<forall>data. calls_between cb w' (snd (triggerEvent event data w')) = [])"
      by (intro exI [of _ ?w']) (simp add: on_client_ok [OF ni] count_list_filter_neq)
  }
qed

theorem C10_witness:
  "handlers_at example_client ''chat'' \<noteq> Inherited \<and> (2::nat) \<le> 3
   \<and> (\<exists>w'. unsubscribe_hooks ''chat'' 7 (((\<lambda>v. snd (on_hooks ''chat'' 7 v)) ^^ 3) example_client) = (None, w') \<and>
        fst (on_hooks ''chat'' 7 example_client) = Inr (unsubscribe_hooks ''chat'' 7) \<and>
        handlers (((\<lambda>v. snd (on_hooks ''chat'' 7 v)) ^^ 3) example_client) ''chat'' = [7, 7, 7] \<and>
        handlers w' ''chat'' = [] \<and>
        count_list (handlers w' ''chat'') 7 = 0 \<and>
        (\<forall>data. calls_between 7 w' (snd (triggerEvent ''chat'' data w')) = []))
   \<and> (\<exists>w'. unsubscribe_client ''chat'' 7 (((\<lambda>v. snd (on_client ''chat'' 7 v)) ^^ 3) example_client) = (None, w') \<and>
        fst (on_client ''chat'' 7 example_client) = Inr (unsubscribe_client ''chat'' 7) \<and>
        handlers (((\<lambda>v. snd (on_client ''chat'' 7 v)) ^^ 3) example_client) ''chat'' = [7, 7, 7] \<and>
        handlers w' ''chat'' = [] \<and>
        count_list (handlers w' ''chat'') 7 = 0 \<and>
        (\<forall>data. calls_between 7 w' (snd (triggerEvent ''chat'' data w')) = []))"
proof -
  have ni: "handlers_at example_client ''chat'' \<noteq> Inherited"
    by (simp add: handlers_at_def example_client_def new_ShoehiveClient_def Object_prototype_keys_def)
  have h: "handlers example_client ''chat'' = []"
    by (simp add: handlers_def example_client_def new_ShoehiveClient_def)
  have r: "replicate 3 (7::nat) = [7, 7, 7]"
    by (simp add: numeral_3_eq_3)
  show ?thesis
    using ni C10_unsubscribe_removes_every_copy
      [where w = example_client and event = "''chat''" and n = 3 and cb = 7]
    by (simp only: h r append_Nil filter.simps) simp
qed

section \<open>Message routing leaves the rest of the client alone\<close>

lemma triggerEvent_emits: "\<exists>es r. triggerEvent e d w = (r, emit es w)"
  by (cases "handlers_at w e") (auto simp: triggerEvent_def emit_def)

lemma notify_emits: "\<exists>es. notify cb v w = emit es w"
  by (cases cb) (auto simp: notify_def emit_def intro: exI [of _ "[]"])

lemma and_then_notify_emits:
  "\<exists>es. snd (and_then (triggerEvent e d w) (\<lambda>w'. (None, notify (f w') v w'))) = emit es w"
proof -
  obtain es r where t: "triggerEvent e d w = (r, emit es w)"
    using triggerEvent_emits by blast
  show ?thesis
  proof (cases r)
    case None
    obtain fs where "notify (f (emit es w)) v (emit es w) = emit fs (emit es w)"
      using notify_emits by blast
    then show ?thesis
      by (auto simp: t None and_then_def emit_emit)
  next
    case (Some x)
    then show ?thesis
      by (auto simp: t and_then_def)
  qed
qed

lemma triggerEvent_value_emits: "\<exists>es r. triggerEvent_value t d w = (r, emit es w)"
proof (cases "to_key t")
  case (Inl e)
  then show ?thesis
    by (auto simp: triggerEvent_value_def emit_def intro: exI [of _ "[]"])
next
  case (Inr key)
  then show ?thesis
    using triggerEvent_emits [of key d w] by (simp add: triggerEvent_value_def)
qed

lemma and_then_trigger_emits:
  "\<exists>es. snd (and_then (triggerEvent_value t d w) (triggerEvent e' d')) = emit es w"
proof -
  obtain es r where t: "triggerEvent_value t d w = (r, emit es w)"
    using triggerEvent_value_emits by blast
  show ?thesis
  proof (cases r)
    case None
    obtain fs r' where "triggerEvent e' d' (emit es w) = (r', emit fs (emit es w))"
      using triggerEvent_emits by blast
    then show ?thesis
      by (auto simp: t None and_then_def emit_emit)
  next
    case (Some x)
    then show ?thesis
      by (auto simp: t and_then_def)
  qed
qed

text \<open>What \<^verbatim>\<open>handleMessage\<close> caches: the world after the \<^verbatim>\<open>switch\<close> has stored.\<close>

lemma handleMessage_hooks_shape:
  "\<exists>es. snd (handleMessage_hooks env m w) =
     emit es
       (if message_type m = Inr (Some (JStr (PLAYER_STATE env))) then w\<lparr>playerState := Some m\<rparr>
        else if message_type m = Inr (Some (JStr (LOBBY_STATE env))) then w\<lparr>lobbyState := Some m\<rparr>
        else if message_type m = Inr (Some (JStr (TABLE_STATE env))) then w\<lparr>tableState := Some m\<rparr>
        else w)"
proof (cases "message_type m")
  case (Inl e)
  then show ?thesis
    by (auto simp: handleMessage_hooks_def emit_def intro: exI [of _ "[]"])
next
  case (Inr t)
  obtain es r where t: "triggerEvent ''serverError'' (Message m) w = (r, emit es w)"
    using triggerEvent_emits by blast
  obtain fs r' where t': "triggerEvent_value t (Message m) w = (r', emit fs w)"
    using triggerEvent_value_emits by blast
  show ?thesis
    using t t' by (auto simp: handleMessage_hooks_def Inr and_then_notify_emits)
qed

lemma handleMessage_client_shape:
  "\<exists>es. snd (handleMessage_client env m w) =
     emit es
       (if message_type m = Inr (Some (JStr (PLAYER_STATE env))) then w\<lparr>playerState := Some m\<rparr>
        else if message_type m = Inr (Some (JStr (LOBBY_STATE env))) then w\<lparr>lobbyState := Some m\<rparr>
        else if message_type m = Inr (Some (JStr (TABLE_STATE env))) then w\<lparr>tableState := Some m\<rparr>
        else w)"
proof (cases "message_type m")
  case (Inl e)
  then show ?thesis
    by (auto simp: handleMessage_client_def emit_def intro: exI [of _ "[]"])
next
  case (Inr t)
  show ?thesis
    by (auto simp: handleMessage_client_def Inr Let_def and_then_trigger_emits)
qed

text \<open>
  Claim C9. In both classes \<^verbatim>\<open>handleMessage\<close> changes no field of the client but the
  three state slots, and of those at most the one of the first case of the
  \<^verbatim>\<open>switch\<close> that matches \<^verbatim>\<open>message.type\<close>: a player-state message sets
  \<open>playerState\<close> only, a lobby-state message \<open>lobbyState\<close> only, a table-state message
  \<open>tableState\<close> only, and any other message (also one that makes \<^verbatim>\<open>handleMessage\<close>
  throw) sets none. \<open>connected\<close>, \<open>reconnectAttempts\<close>, the handle, the handler table,
  the timers and the transport are as before; only the trace of calls grows.
\<close>

theorem C9_handleMessage_frame:
  "list_all
     (\<lambda>w'. w' = w\<lparr>playerState := playerState w', lobbyState := lobbyState w',
                   tableState := tableState w', trace := trace w'\<rparr>
          \<and> connected w' = connected w
          \<and> reconnectAttempts w' = reconnectAttempts w
          \<and> (if message_type message = Inr (Some (JStr (PLAYER_STATE env))) then
                playerState w' = Some message \<and> lobbyState w' = lobbyState w \<and> tableState w' = tableState w
              else if message_type message = Inr (Some (JStr (LOBBY_STATE env))) then
                playerState w' = playerState w \<and> lobbyState w' = Some message \<and> tableState w' = tableState w
              else if message_type message = Inr (Some (JStr (TABLE_STATE env))) then
                playerState w' = playerState w \<and> lobbyState w' = lobbyState w \<and> tableState w' = Some message
              else
                playerState w' = playerState w \<and> lobbyState w' = lobbyState w \<and> tableState w' = tableState w))
     [snd (handleMessage_hooks env message w), snd (handleMessage_client env message w)]"
proof -
  obtain es where h: "snd (handleMessage_hooks env message w) =
     emit es
       (if message_type message = Inr (Some (JStr (PLAYER_STATE env))) then w\<lparr>playerState := Some message\<rparr>
        else if message_type message = Inr (Some (JStr (LOBBY_STATE env))) then w\<lparr>lobbyState := Some message\<rparr>
        else if message_type message = Inr (Some (JStr (TABLE_STATE env))) then w\<lparr>tableState := Some message\<rparr>
        else w)"
    using handleMessage_hooks_shape by blast
  obtain fs where c: "snd (handleMessage_client env message w) =
     emit fs
       (if message_type message = Inr (Some (JStr (PLAYER_STATE env))) then w\<lparr>playerState := Some message\<rparr>
        else if message_type message = Inr (Some (JStr (LOBBY_STATE env))) then w\<lparr>lobbyState := Some message\<rparr>
        else if message_type message = Inr (Some (JStr (TABLE_STATE env))) then w\<lparr>tableState := Some message\<rparr>
        else w)"
    using handleMessage_client_shape by blast
  show ?thesis
    by (simp add: h c emit_def)
qed

section \<open>The message listener\<close>

lemma error_not_inherited: "''error'' \<notin> set Object_prototype_keys"
  by (simp add: Object_prototype_keys_def)

lemma message_not_inherited: "''message'' \<notin> set Object_prototype_keys"
  by (simp add: Object_prototype_keys_def)

lemma fired_between_cached:
  "trace v = trace w \<Longrightarrow> fired_between w (emit es v) = fired es"
  by (simp add: fired_between_def emit_def)

lemma calls_between_cached:
  "trace v = trace w \<Longrightarrow> calls_between cb w (emit es v) = calls_of cb es"
  by (simp add: calls_between_def emit_def)

lemma handleMessage_client_ok:
  assumes mt: "message_type m = Inr t"
    and tk: "to_key t = Inr key"
    and ni: "key \<notin> set Object_prototype_keys"
  shows "\<exists>v. trace v = trace w \<and> eventHandlers v = eventHandlers w \<and>
           handleMessage_client env m w =
             (None, emit (Fired key (Message m)
                          # map (\<lambda>cb. Invoked cb (Message m)) (handlers w key)
                          @ Fired ''message'' (Message m)
                          # map (\<lambda>cb. Invoked cb (Message m)) (handlers w ''message'')) v)"
proof -
  define v where "v =
    (if t = Some (JStr (PLAYER_STATE env)) then w\<lparr>playerState := Some m\<rparr>
     else if t = Some (JStr (LOBBY_STATE env)) then w\<lparr>lobbyState := Some m\<rparr>
     else if t = Some (JStr (TABLE_STATE env)) then w\<lparr>tableState := Some m\<rparr>
     else w)"
  have tr: "trace v = trace w" and eh: "eventHandlers v = eventHandlers w"
    by (simp_all add: v_def)
  have hs: "handlers v e = handlers w e" for e
    by (simp add: handlers_def eh)
  have n1: "handlers_at v key \<noteq> Inherited"
    by (rule not_Inherited [OF ni])
  let ?E1 = "Fired key (Message m) # map (\<lambda>cb. Invoked cb (Message m)) (handlers w key)"
  have t1: "triggerEvent key (Message m) v = (None, emit ?E1 v)"
    by (simp add: triggerEvent_ok [OF n1] hs)
  have n2: "handlers_at (emit ?E1 v) ''message'' \<noteq> Inherited"
    by (rule not_Inherited [OF message_not_inherited])
  have t2: "triggerEvent ''message'' (Message m) (emit ?E1 v) =
      (None, emit (?E1 @ Fired ''message'' (Message m)
                    # map (\<lambda>cb. Invoked cb (Message m)) (handlers w ''message'')) v)"
    by (simp add: triggerEvent_ok [OF n2] handlers_emit hs emit_emit)
  have "handleMessage_client env m w = and_then (triggerEvent key (Message m) v)
          (triggerEvent ''message'' (Message m))"
    by (simp add: handleMessage_client_def mt v_def triggerEvent_value_def tk)
  then have "handleMessage_client env m w =
      (None, emit (?E1 @ Fired ''message'' (Message m)
                    # map (\<lambda>cb. Invoked cb (Message m)) (handlers w ''message'')) v)"
    by (simp add: t1 t2 and_then_def)
  with tr eh show ?thesis
    by (intro exI [of _ v]) simp
qed

lemma hooks_events_not_inherited:
  "''playerState'' \<notin> set Object_prototype_keys"
  "''lobbyState'' \<notin> set Object_prototype_keys"
  "''tableState'' \<notin> set Object_prototype_keys"
  "''serverError'' \<notin> set Object_prototype_keys"
  by (simp_all add: Object_prototype_keys_def)

lemma cached_trigger:
  assumes "e \<notin> set Object_prototype_keys" and tr: "trace v = trace w"
  shows "fired_between w (snd (triggerEvent e d v)) = [(e, d)]"
proof -
  have ni: "handlers_at v e \<noteq> Inherited"
    by (rule not_Inherited [OF assms(1)])
  show ?thesis
    by (simp add: triggerEvent_ok [OF ni] fired_between_cached [OF tr] fired_Invoked)
qed

lemma cached_trigger_notify:
  assumes "e \<notin> set Object_prototype_keys" and tr: "trace v = trace w"
  shows "fired_between w (snd (and_then (triggerEvent e d v) (\<lambda>w'. (None, notify (f w') x w'))))
           = [(e, d)]"
proof -
  have ni: "handlers_at v e \<noteq> Inherited"
    by (rule not_Inherited [OF assms(1)])
  let ?E = "Fired e d # map (\<lambda>cb. Invoked cb d) (handlers v e)"
  have t: "triggerEvent e d v = (None, emit ?E v)"
    by (rule triggerEvent_ok [OF ni])
  show ?thesis
  proof (cases "f (emit ?E v)")
    case None
    then show ?thesis
      by (simp add: t and_then_def notify_def fired_between_cached [OF tr] fired_Invoked)
  next
    case (Some cb)
    then show ?thesis
      by (simp add: t and_then_def notify_def emit_emit fired_between_cached [OF tr]
          fired_append fired_Invoked)
  qed
qed

lemma handleMessage_hooks_fired:
  assumes mt: "message_type m = Inr t"
    and tk: "to_key t = Inr key"
    and ni: "key \<notin> set Object_prototype_keys"
  shows "fired_between w (snd (handleMessage_hooks env m w)) =
         [(if t = Some (JStr (PLAYER_STATE env)) then ''playerState''
           else if t = Some (JStr (LOBBY_STATE env)) then ''lobbyState''
           else if t = Some (JStr (TABLE_STATE env)) then ''tableState''
           else if t = Some (JStr (ERROR env)) then ''serverError''
           else key, Message m)]"
proof -
  have tr: "trace (w\<lparr>playerState := Some m\<rparr>) = trace w"
    "trace (w\<lparr>lobbyState := Some m\<rparr>) = trace w"
    "trace (w\<lparr>tableState := Some m\<rparr>) = trace w"
    "trace w = trace w"
    by simp_all
  consider (player) "t = Some (JStr (PLAYER_STATE env))"
    | (lobby) "t \<noteq> Some (JStr (PLAYER_STATE env))" "t = Some (JStr (LOBBY_STATE env))"
    | (table) "t \<noteq> Some (JStr (PLAYER_STATE env))" "t \<noteq> Some (JStr (LOBBY_STATE env))"
        "t = Some (JStr (TABLE_STATE env))"
    | (error) "t \<noteq> Some (JStr (PLAYER_STATE env))" "t \<noteq> Some (JStr (LOBBY_STATE env))"
        "t \<noteq> Some (JStr (TABLE_STATE env))" "t = Some (JStr (ERROR env))"
    | (other) "t \<noteq> Some (JStr (PLAYER_STATE env))" "t \<noteq> Some (JStr (LOBBY_STATE env))"
        "t \<noteq> Some (JStr (TABLE_STATE env))" "t \<noteq> Some (JStr (ERROR env))"
    by blast
  then show ?thesis
  proof cases
    case player
    have "handleMessage_hooks env m w =
        and_then (triggerEvent ''playerState'' (Message m) (w\<lparr>playerState := Some m\<rparr>))
          (\<lambda>w'. (None, notify (onPlayerStateChange w') (Message m) w'))"
      using player by (simp add: handleMessage_hooks_def mt)
    then show ?thesis
      using player
      by (simp add: cached_trigger_notify [OF hooks_events_not_inherited(1) tr(1)])
  next
    case lobby
    have "handleMessage_hooks env m w =
        and_then (triggerEvent ''lobbyState'' (Message m) (w\<lparr>lobbyState := Some m\<rparr>))
          (\<lambda>w'. (None, notify (onLobbyStateChange w') (Message m) w'))"
      using lobby by (simp add: handleMessage_hooks_def mt)
    then show ?thesis
      using lobby
      by (simp add: cached_trigger_notify [OF hooks_events_not_inherited(2) tr(2)])
  next
    case table
    have "handleMessage_hooks env m w =
        and_then (triggerEvent ''tableState'' (Message m) (w\<lparr>tableState := Some m\<rparr>))
          (\<lambda>w'. (None, notify (onTableStateChange w') (Message m) w'))"
      using table by (simp add: handleMessage_hooks_def mt)
    then show ?thesis
      using table
      by (simp add: cached_trigger_notify [OF hooks_events_not_inherited(3) tr(3)])
  next
    case error
    have "handleMessage_hooks env m w = triggerEvent ''serverError'' (Message m) w"
      using error by (simp add: handleMessage_hooks_def mt)
    then show ?thesis
      using error
      by (simp add: cached_trigger [OF hooks_events_not_inherited(4) tr(4)])
  next
    case other
    have "handleMessage_hooks env m w = triggerEvent key (Message m) w"
      using other by (simp add: handleMessage_hooks_def mt triggerEvent_value_def tk)
    then show ?thesis
      using other
      by (simp add: cached_trigger [OF ni tr(4)])
  qed
qed

text \<open>
  Claim C1, as amended. In the class with \<^verbatim>\<open>setupSocketListeners\<close>, a frame that
  parses to a value other than \<^verbatim>\<open>null\<close>, whose \<^verbatim>\<open>type\<close> converts to a
  property key (it is not an object with an own \<^verbatim>\<open>toString\<close> property, nor an
  array holding one) that is not a property inherited from \<^verbatim>\<open>Object.prototype\<close>,
  triggers exactly two events, in this order: the event named by the type key and the
  generic \<^verbatim>\<open>'message'\<close> event, both with the message as payload; every handler
  registered for either is called once per event, and when the type is not
  \<^verbatim>\<open>'message'\<close> itself each of the two events is triggered exactly once. The hooks
  class triggers one event only, and no generic \<^verbatim>\<open>'message'\<close> event:
  \<^verbatim>\<open>'playerState'\<close>, \<^verbatim>\<open>'lobbyState'\<close>, \<^verbatim>\<open>'tableState'\<close> or
  \<^verbatim>\<open>'serverError'\<close> for the four known types, and the type-named event for any
  other. Handlers are taken to return normally: a handler that throws ends the dispatch
  where it stands.
\<close>

theorem C1_message_events:
  "JSON_parse env data = Some m \<and> message_type m = Inr t \<and> to_key t = Inr key \<and>
   key \<notin> set Object_prototype_keys \<longrightarrow>
     (\<exists>w'. on_message_client env data w = (None, w') \<and>
        fired_between w w' = [(key, Message m), (''message'', Message m)] \<and>
        (key \<noteq> ''message'' \<longrightarrow>
           count_list (fired_between w w') (key, Message m) = 1 \<and>
           count_list (fired_between w w') (''message'', Message m) = 1) \<and>
        (\<forall>cb. calls_between cb w w' =
           replicate (count_list (handlers w key) cb) (Message m)
           @ replicate (count_list (handlers w ''message'') cb) (Message m)))
     \<and> fired_between w (snd (on_message_hooks env data w)) =
         [(if t = Some (JStr (PLAYER_STATE env)) then ''playerState''
           else if t = Some (JStr (LOBBY_STATE env)) then ''lobbyState''
           else if t = Some (JStr (TABLE_STATE env)) then ''tableState''
           else if t = Some (JStr (ERROR env)) then ''serverError''
           else key, Message m)]"
proof (intro impI conjI)
  assume a: "JSON_parse env data = Some m \<and> message_type m = Inr t \<and> to_key t = Inr key \<and>
   key \<notin> set Object_prototype_keys"
  then have p: "JSON_parse env data = Some m" and mt: "message_type m = Inr t"
    and tk: "to_key t = Inr key" and ni: "key \<notin> set Object_prototype_keys"
    by simp_all
  let ?E = "Fired key (Message m)
                          # map (\<lambda>cb. Invoked cb (Message m)) (handlers w key)
                          @ Fired ''message'' (Message m)
                          # map (\<lambda>cb. Invoked cb (Message m)) (handlers w ''message'')"
  obtain v where tr: "trace v = trace w"
    and hm: "handleMessage_client env m w = (None, emit ?E v)"
    using handleMessage_client_ok [OF mt tk ni] by blast
  have om: "on_message_client env data w = (None, emit ?E v)"
    by (simp add: on_message_client_def p hm)
  have fb: "fired_between w (emit ?E v) = [(key, Message m), (''message'', Message m)]"
    by (simp add: fired_between_cached [OF tr] fired_append fired_Invoked)
  have cb: "calls_between cb w (emit ?E v) =
           replicate (count_list (handlers w key) cb) (Message m)
           @ replicate (count_list (handlers w ''message'') cb) (Message m)" for cb
    by (simp add: calls_between_cached [OF tr] calls_of_append calls_of_Invoked)
  show "\<exists>w'. on_message_client env data w = (None, w') \<and>
        fired_between w w' = [(key, Message m), (''message'', Message m)] \<and>
        (key \<noteq> ''message'' \<longrightarrow>
           count_list (fired_between w w') (key, Message m) = 1 \<and>
           count_list (fired_between w w') (''message'', Message m) = 1) \<and>
        (\<forall>cb. calls_between cb w w' =
           replicate (count_list (handlers w key) cb) (Message m)
           @ replicate (count_list (handlers w ''message'') cb) (Message m))"
    using om fb cb by (intro exI [of _ "emit ?E v"]) auto
  show "fired_between w (snd (on_message_hooks env data w)) =
         [(if t = Some (JStr (PLAYER_STATE env)) then ''playerState''
           else if t = Some (JStr (LOBBY_STATE env)) then ''lobbyState''
           else if t = Some (JStr (TABLE_STATE env)) then ''tableState''
           else if t = Some (JStr (ERROR env)) then ''serverError''
           else key, Message m)]"
    by (simp add: on_message_hooks_def p handleMessage_hooks_fired [OF mt tk ni])
qed

text \<open>
  Claim C1 as stated fails: in the hooks class a player-state frame triggers
  \<^verbatim>\<open>'playerState'\<close> alone (neither \<^verbatim>\<open>'player:state'\<close> nor \<^verbatim>\<open>'message'\<close>); in
  the other class a frame of type \<^verbatim>\<open>'message'\<close> triggers \<^verbatim>\<open>'message'\<close> twice, a
  frame of type \<^verbatim>\<open>'constructor'\<close> raises a TypeError in \<^verbatim>\<open>triggerEvent\<close> (the
  table inherits that property), reported as a \<^verbatim>\<open>parseError\<close> with no
  \<^verbatim>\<open>'message'\<close> event, a frame whose type is an object with an own
  \<^verbatim>\<open>toString\<close> property raises a TypeError before any handler is looked up, and
  the frame \<^verbatim>\<open>null\<close> parses but has no \<^verbatim>\<open>type\<close> to read.
\<close>

theorem C1_counterexample:
  "JSON_parse example_host player_frame = Some player_message
   \<and> fired_between example_client (snd (on_message_hooks example_host player_frame example_client))
       = [(''playerState'', Message player_message)]
   \<and> JSON_parse example_host message_frame = Some message_message
   \<and> fired_between example_client (snd (on_message_client example_host message_frame example_client))
       = [(''message'', Message message_message), (''message'', Message message_message)]
   \<and> JSON_parse example_host constructor_frame = Some constructor_message
   \<and> fired_between example_client (snd (on_message_client example_host constructor_frame example_client))
       = [(''constructor'', Message constructor_message), (''error'', parseError TypeError)]
   \<and> JSON_parse example_host ''null'' = Some JNull
   \<and> fired_between example_client (snd (on_message_client example_host ''null'' example_client))
       = [(''error'', parseError TypeError)]
   \<and> JSON_parse example_host object_type_frame = Some object_type_message
   \<and> fired_between example_client (snd (on_message_client example_host object_type_frame example_client))
       = [(''error'', parseError TypeError)]"
proof -
  have a: "fired_between example_client (snd (on_message_hooks example_host player_frame example_client))
       = [(''playerState'', Message player_message)]"
    by (simp add: on_message_hooks_def example_parse
        handleMessage_hooks_fired [OF example_types(1) example_keys(1) example_keys(6)]
        example_host_constants)
  have b: "fired_between example_client (snd (on_message_client example_host message_frame example_client))
       = [(''message'', Message message_message), (''message'', Message message_message)]"
    by (simp add: on_message_client_def example_parse handleMessage_client_def example_types
        example_host_constants triggerEvent_value_def example_keys triggerEvent_def handlers_at_def
        example_client_fields Object_prototype_keys_def and_then_def emit_def fired_between_def)
  have c: "fired_between example_client (snd (on_message_client example_host constructor_frame example_client))
       = [(''constructor'', Message constructor_message), (''error'', parseError TypeError)]"
    by (simp add: on_message_client_def example_parse handleMessage_client_def example_types
        example_host_constants triggerEvent_value_def example_keys triggerEvent_def handlers_at_def
        example_client_fields Object_prototype_keys_def and_then_def emit_def fired_between_def)
  have d: "fired_between example_client (snd (on_message_client example_host ''null'' example_client))
       = [(''error'', parseError TypeError)]"
    by (simp add: on_message_client_def example_parse handleMessage_client_def example_types
        triggerEvent_def handlers_at_def example_client_fields
        Object_prototype_keys_def emit_def fired_between_def)
  have e: "fired_between example_client (snd (on_message_client example_host object_type_frame example_client))
       = [(''error'', parseError TypeError)]"
    by (simp add: on_message_client_def example_parse handleMessage_client_def example_types
        example_host_constants triggerEvent_value_def example_keys triggerEvent_def handlers_at_def
        example_client_fields Object_prototype_keys_def and_then_def emit_def fired_between_def)
  show ?thesis
    by (simp only: a b c d e example_parse simp_thms)
qed

theorem C1_witness:
  "JSON_parse example_host chat_frame = Some chat_message
   \<and> (\<exists>w'. on_message_client example_host chat_frame example_client = (None, w') \<and>
         fired_between example_client w' = [(''chat'', Message chat_message), (''message'', Message chat_message)])
   \<and> fired_between example_client (snd (on_message_hooks example_host chat_frame example_client))
       = [(''chat'', Message chat_message)]"
proof -
  have hyp: "JSON_parse example_host chat_frame = Some chat_message \<and>
      message_type chat_message = Inr (Some (JStr ''chat'')) \<and>
      to_key (Some (JStr ''chat'')) = Inr ''chat'' \<and>
      ''chat'' \<notin> set Object_prototype_keys"
    by (simp only: example_parse example_types example_keys simp_thms)
  from C1_message_events [where env = example_host and data = chat_frame and m = chat_message
      and t = "Some (JStr ''chat'')" and key = "''chat''" and w = example_client, THEN mp, OF hyp]
  show ?thesis
    by (auto simp: example_parse example_host_constants)
qed

text \<open>
  Claim C5, as amended. For a frame that \<^verbatim>\<open>JSON.parse\<close> rejects, the class with
  \<^verbatim>\<open>setupSocketListeners\<close> triggers exactly one event, \<^verbatim>\<open>'error'\<close> of kind
  \<^verbatim>\<open>parseError\<close>, calls its handlers, and changes nothing but the trace (no state
  slot changes); the hooks class only logs: it triggers no event and changes nothing.
\<close>

theorem C5_parse_failure:
  "JSON_parse env data = None \<longrightarrow>
     on_message_client env data w =
       (None, emit (Fired ''error'' (parseError SyntaxError)
                    # map (\<lambda>cb. Invoked cb (parseError SyntaxError)) (handlers w ''error'')) w)
     \<and> fired_between w (snd (on_message_client env data w)) = [(''error'', parseError SyntaxError)]
     \<and> playerState (snd (on_message_client env data w)) = playerState w
     \<and> lobbyState (snd (on_message_client env data w)) = lobbyState w
     \<and> tableState (snd (on_message_client env data w)) = tableState w
     \<and> on_message_hooks env data w = (None, w)"
proof
  assume p: "JSON_parse env data = None"
  have ni: "handlers_at w ''error'' \<noteq> Inherited"
    by (rule not_Inherited [OF error_not_inherited])
  have c: "on_message_client env data w =
       (None, emit (Fired ''error'' (parseError SyntaxError)
                    # map (\<lambda>cb. Invoked cb (parseError SyntaxError)) (handlers w ''error'')) w)"
    by (simp add: on_message_client_def p triggerEvent_ok [OF ni])
  show "on_message_client env data w =
       (None, emit (Fired ''error'' (parseError SyntaxError)
                    # map (\<lambda>cb. Invoked cb (parseError SyntaxError)) (handlers w ''error'')) w)
     \<and> fired_between w (snd (on_message_client env data w)) = [(''error'', parseError SyntaxError)]
     \<and> playerState (snd (on_message_client env data w)) = playerState w
     \<and> lobbyState (snd (on_message_client env data w)) = lobbyState w
     \<and> tableState (snd (on_message_client env data w)) = tableState w
     \<and> on_message_hooks env data w = (None, w)"
    by (simp add: c fired_between_emit fired_Invoked on_message_hooks_def p) (simp add: emit_def)
qed

text \<open>
  Claim C5 as stated fails in the hooks class: a malformed frame triggers no event.
\<close>

theorem C5_counterexample:
  "JSON_parse example_host ''{oops'' = None
   \<and> fired_between example_client (snd (on_message_hooks example_host ''{oops'' example_client)) = []"
  by (simp add: example_parse on_message_hooks_def fired_between_def)

theorem C5_witness:
  "JSON_parse example_host ''{oops'' = None
   \<and> on_message_client example_host ''{oops'' example_client =
       (None, emit [Fired ''error'' (parseError SyntaxError)] example_client)
   \<and> on_message_hooks example_host ''{oops'' example_client = (None, example_client)"
  using C5_parse_failure [where env = example_host and data = "''{oops''" and w = example_client]
  by (simp add: example_parse handlers_def example_client_fields)

section \<open>sendCommand\<close>

text \<open>The command sent is the flat merge: the properties of \<open>data\<close> over \<open>action\<close>.\<close>

lemma map_of_foldl_update:
  "map_of (foldl (\<lambda>obj (key, val). AList.update key val obj) target source)
     = map_of target ++ map_of (rev source)"
proof (induction source arbitrary: target)
  case Nil
  then show ?case by simp
next
  case (Cons p ps)
  obtain k v where p: "p = (k, v)" by (cases p)
  show ?case
    by (simp add: p Cons.IH update_conv' map_add_def fun_eq_iff split: option.splits)
qed

lemma distinct_foldl_update:
  "distinct (map fst target) \<Longrightarrow>
   distinct (map fst (foldl (\<lambda>obj (key, val). AList.update key val obj) target source))"
proof (induction source arbitrary: target)
  case Nil
  then show ?case by simp
next
  case (Cons p ps)
  obtain k v where p: "p = (k, v)" by (cases p)
  show ?case
    using Cons.prems by (simp add: p Cons.IH distinct_update)
qed

text \<open>Enumeration reorders the properties of an object and keeps every one of them.\<close>

lemma mset_property_order: "mset (property_order props) = mset props"
proof -
  have "filter (\<lambda>(key, val). array_index key = None) props
      = filter (\<lambda>p. \<not> (case p of (key, val) \<Rightarrow> array_index key \<noteq> None)) props"
    by (rule filter_cong) auto
  then show ?thesis
    unfolding property_order_def by (simp add: multiset_partition [symmetric])
qed

lemma distinct_property_order:
  "distinct (map fst (property_order props)) = distinct (map fst props)"
proof -
  have "mset (map fst (property_order props)) = mset (map fst props)"
    using mset_property_order [of props] by (metis mset_map)
  then show ?thesis
    by (metis mset_eq_imp_distinct_iff)
qed

lemma map_of_property_order:
  assumes "distinct (map fst props)"
  shows "map_of (property_order props) = map_of props"
proof -
  have d: "distinct (map fst (property_order props))"
    using assms by (simp add: distinct_property_order)
  have s: "set (property_order props) = set props"
    using mset_property_order [of props] by (metis set_mset_mset)
  show ?thesis
    using d assms s by (simp add: map_of_inject_set)
qed

lemma map_of_spread:
  "distinct (map fst target) \<Longrightarrow>
   map_of (spread target source) = map_of target ++ map_of (rev source)"
  by (simp add: spread_def map_of_property_order distinct_foldl_update map_of_foldl_update)

lemma distinct_spread:
  "distinct (map fst target) \<Longrightarrow> distinct (map fst (spread target source))"
  by (simp add: spread_def distinct_property_order distinct_foldl_update)

text \<open>
  Claim C4. In both classes \<^verbatim>\<open>sendCommand(action, data)\<close> is a total function to a
  boolean (no exception leaves it). While \<open>connected\<close> is false it returns false and
  leaves the world as it is: nothing is written, nothing is queued. While \<open>connected\<close>
  is true and the handle, \<^verbatim>\<open>JSON.stringify\<close> and \<^verbatim>\<open>send\<close> do not fail, it
  writes the serialised merge of \<open>action\<close> and \<open>data\<close> to the handle (the trace
  gains exactly that frame) and returns true; when one of them throws it returns false
  and nothing is written. The merge holds every property of \<open>data\<close>, and \<open>action\<close>
  unless \<open>data\<close> has a property of that name, each key once.
\<close>

theorem C4_sendCommand:
  "(\<not> connected w \<longrightarrow>
      sendCommand_hooks env action data w = (False, w) \<and>
      sendCommand_client env action data w = (False, w))
   \<and> (connected w \<and> socket w = Some s \<and> JSON_stringify env (command action data) = Some frame
        \<and> \<not> send_throws env (readyState_of w s) \<longrightarrow>
      sendCommand_hooks env action data w = (True, emit [SentFrame s frame] w) \<and>
      sendCommand_client env action data w = (True, emit [SentFrame s frame] w) \<and>
      trace (snd (sendCommand_hooks env action data w)) = trace w @ [SentFrame s frame] \<and>
      trace (snd (sendCommand_client env action data w)) = trace w @ [SentFrame s frame] \<and>
      snd (sendCommand_hooks env action data w) = w\<lparr>trace := trace w @ [SentFrame s frame]\<rparr> \<and>
      snd (sendCommand_client env action data w) = w\<lparr>trace := trace w @ [SentFrame s frame]\<rparr>)
   \<and> (connected w \<and> (socket w = None \<or> JSON_stringify env (command action data) = None
          \<or> (\<exists>h. socket w = Some h \<and> send_throws env (readyState_of w h))) \<longrightarrow>
      sendCommand_hooks env action data w = (False, w) \<and>
      sendCommand_client env action data w = (False, w))
   \<and> (\<exists>props. command action data = JObj props \<and> distinct (map fst props) \<and>
        map_of props = [''action'' \<mapsto> JStr action] ++ map_of (rev data))"
  by (auto simp: sendCommand_hooks_def sendCommand_client_def command_def map_of_spread Let_def
      emit_def distinct_spread split: option.splits)

lemma chat_command:
  "command ''chat'' [(''text'', JStr ''hi'')] = JObj [(''action'', JStr ''chat''), (''text'', JStr ''hi'')]"
  by (simp add: command_def spread_def property_order_def array_index_def)

theorem C4_sendCommand_witness:
  "sendCommand_hooks example_host ''chat'' [(''text'', JStr ''hi'')] example_client
     = (False, example_client)
   \<and> sendCommand_client example_host ''chat'' [(''text'', JStr ''hi'')] open_client
     = (True, emit [SentFrame 0 chat_command_frame] open_client)
   \<and> trace (snd (sendCommand_client example_host ''chat'' [(''text'', JStr ''hi'')] open_client))
     = [SentFrame 0 chat_command_frame]
   \<and> trace (snd (sendCommand_hooks example_host ''chat'' [(''text'', JStr ''hi'')] open_client))
     = [SentFrame 0 chat_command_frame]
   \<and> sendCommand_client example_host ''chat'' [(''text'', JStr ''hi'')] (open_client\<lparr>socket := None\<rparr>)
     = (False, open_client\<lparr>socket := None\<rparr>)"
  using C4_sendCommand [where w = example_client and env = example_host and action = "''chat''"
      and data = "[(''text'', JStr ''hi'')]"]
    C4_sendCommand [where w = open_client and s = 0 and env = example_host and action = "''chat''"
      and data = "[(''text'', JStr ''hi'')]" and frame = chat_command_frame]
    C4_sendCommand [where w = "open_client\<lparr>socket := None\<rparr>" and env = example_host
      and action = "''chat''" and data = "[(''text'', JStr ''hi'')]"]
  by (simp add: example_client_def open_client_def new_ShoehiveClient_def example_host_def
      readyState_of_def chat_command emit_def)

section \<open>Reconnection with backoff\<close>

subsection \<open>Products that a double holds exactly\<close>









subsection \<open>Runs of failed attempts\<close>







lemma disconnected_not_inherited: "''disconnected'' \<notin> set Object_prototype_keys"
  by (simp add: Object_prototype_keys_def)

lemma triggerEvent_disconnected:
  "triggerEvent ''disconnected'' d w =
     (None, emit (Fired ''disconnected'' d # map (\<lambda>cb. Invoked cb d) (handlers w ''disconnected'')) w)"
  by (rule triggerEvent_ok [OF not_Inherited [OF disconnected_not_inherited]])

















section \<open>One live handle\<close>

lemma one_live_cong: "transport v = transport w \<Longrightarrow> one_live v = one_live w"
  by (simp add: transport_def one_live_def)

lemma connection_exists_cong: "transport v = transport w \<Longrightarrow> connection_exists v = connection_exists w"
  by (cases "socket w") (simp_all add: transport_def connection_exists_def readyState_of_def)

lemma transport_emit: "transport (emit es w) = transport w"
  by (simp add: transport_def emit_def)

lemma transport_triggerEvent: "transport (snd (triggerEvent e d w)) = transport w"
proof -
  obtain es r where "triggerEvent e d w = (r, emit es w)"
    using triggerEvent_emits by blast
  then show ?thesis
    by (simp add: transport_emit)
qed

lemma transport_handleMessage_hooks: "transport (snd (handleMessage_hooks env m w)) = transport w"
proof -
  obtain es where "snd (handleMessage_hooks env m w) =
     emit es
       (if message_type m = Inr (Some (JStr (PLAYER_STATE env))) then w\<lparr>playerState := Some m\<rparr>
        else if message_type m = Inr (Some (JStr (LOBBY_STATE env))) then w\<lparr>lobbyState := Some m\<rparr>
        else if message_type m = Inr (Some (JStr (TABLE_STATE env))) then w\<lparr>tableState := Some m\<rparr>
        else w)"
    using handleMessage_hooks_shape by blast
  then show ?thesis
    by (simp add: transport_def emit_def)
qed

lemma transport_handleMessage_client: "transport (snd (handleMessage_client env m w)) = transport w"
proof -
  obtain es where "snd (handleMessage_client env m w) =
     emit es
       (if message_type m = Inr (Some (JStr (PLAYER_STATE env))) then w\<lparr>playerState := Some m\<rparr>
        else if message_type m = Inr (Some (JStr (LOBBY_STATE env))) then w\<lparr>lobbyState := Some m\<rparr>
        else if message_type m = Inr (Some (JStr (TABLE_STATE env))) then w\<lparr>tableState := Some m\<rparr>
        else w)"
    using handleMessage_client_shape by blast
  then show ?thesis
    by (simp add: transport_def emit_def)
qed

lemma transport_on_message_hooks: "transport (snd (on_message_hooks env data w)) = transport w"
  by (cases "JSON_parse env data") (simp_all add: on_message_hooks_def transport_handleMessage_hooks)

lemma transport_on_message_client: "transport (snd (on_message_client env data w)) = transport w"
proof (cases "JSON_parse env data")
  case None
  then show ?thesis
    by (simp add: on_message_client_def transport_triggerEvent)
next
  case (Some m)
  obtain r v where h: "handleMessage_client env m w = (r, v)"
    by (cases "handleMessage_client env m w")
  then have "transport v = transport w"
    using transport_handleMessage_client [of env m w] by simp
  then show ?thesis
    by (cases r) (simp_all add: on_message_client_def Some h transport_triggerEvent)
qed

lemma transport_sendCommand:
  "transport (snd (sendCommand_hooks env a d w)) = transport w"
  "transport (snd (sendCommand_client env a d w)) = transport w"
  by (auto simp: sendCommand_hooks_def sendCommand_client_def transport_emit Let_def
      split: option.splits)

lemma transport_on:
  "transport (snd (on_hooks e cb w)) = transport w"
  "transport (snd (on_client e cb w)) = transport w"
  by (cases "handlers_at w e"; simp add: on_hooks_def on_client_def transport_def)+

lemma transport_unsubscribe:
  "transport (snd (unsubscribe_hooks e cb w)) = transport w"
  "transport (snd (unsubscribe_client e cb w)) = transport w"
  by (cases "handlers_at w e"; simp add: unsubscribe_hooks_def unsubscribe_client_def transport_def)+

lemma transport_handle_reconnection: "transport (handle_reconnection env w) = transport w"
  by (simp add: handle_reconnection_def transport_def emit_def Let_def)

lemma transport_notify: "transport (notify cb v w) = transport w"
  by (cases cb) (simp_all add: notify_def transport_emit)

lemma transport_and_then_notify:
  "transport (snd (and_then (triggerEvent e d w) (\<lambda>w'. (None, g (notify (f w') v w'))))) = transport w"
  if "\<And>u. transport (g u) = transport u"
proof -
  obtain es r where t: "triggerEvent e d w = (r, emit es w)"
    using triggerEvent_emits by blast
  show ?thesis
    by (cases r) (simp_all add: t and_then_def that transport_notify transport_emit)
qed

lemma transport_on_error:
  "transport (snd (on_error_hooks w)) = transport w"
  "transport (snd (on_error_client w)) = transport w"
  by (simp_all add: on_error_hooks_def on_error_client_def transport_triggerEvent)

lemma transport_on_open:
  "transport (snd (on_open_hooks w)) = transport w"
  "transport (snd (on_open_client w)) = transport w"
proof -
  have "transport (w\<lparr>connected := True, reconnectAttempts := 0\<rparr>) = transport w"
    by (simp add: transport_def)
  then show "transport (snd (on_open_hooks w)) = transport w"
    using transport_and_then_notify [of "\<lambda>u. u" "''connected''" NoPayload
        "w\<lparr>connected := True, reconnectAttempts := 0\<rparr>" onConnectionChange "Flag True"]
    by (simp add: on_open_hooks_def)
  show "transport (snd (on_open_client w)) = transport w"
    by (simp add: on_open_client_def transport_triggerEvent) (simp add: transport_def)
qed

lemma transport_on_close:
  "transport (snd (on_close_hooks env code reason w)) = transport w"
  "transport (snd (on_close_client env code reason w)) = transport w"
proof -
  have c: "transport (w\<lparr>connected := False\<rparr>) = transport w"
    by (simp add: transport_def)
  show "transport (snd (on_close_hooks env code reason w)) = transport w"
    using transport_and_then_notify [of "handle_reconnection env" "''disconnected''"
        "CloseEvent code reason" "w\<lparr>connected := False\<rparr>" onConnectionChange "Flag False"]
    by (simp add: on_close_hooks_def transport_handle_reconnection c)
  show "transport (snd (on_close_client env code reason w)) = transport w"
    by (simp add: on_close_client_def triggerEvent_disconnected and_then_def
        transport_handle_reconnection transport_emit c)
qed

lemma one_live_new:
  assumes "one_live w" and "\<not> connection_exists w"
    and "transport v = (Some (length (sockets w)), sockets w @ [CONNECTING])"
  shows "one_live v"
proof -
  have dead: "sockets w ! s \<noteq> CONNECTING \<and> sockets w ! s \<noteq> OPEN" if "s < length (sockets w)" for s
    using assms(1,2) that by (auto simp: one_live_def connection_exists_def readyState_of_def)
  show ?thesis
    using assms(3) dead by (auto simp: one_live_def transport_def nth_append less_Suc_eq)
qed

lemma one_live_shut:
  assumes "one_live w" and "sockets v = (sockets w)[s := x]" and "x \<noteq> CONNECTING" and "x \<noteq> OPEN"
    and "socket v = socket w \<or> socket w = Some s"
  shows "one_live v"
  unfolding one_live_def
proof (intro allI impI)
  fix h
  assume h: "h < length (sockets v)" and live: "sockets v ! h = CONNECTING \<or> sockets v ! h = OPEN"
  have len: "h < length (sockets w)"
    using h assms(2) by simp
  have neq: "h \<noteq> s"
    using live assms(2,3,4) len by auto
  then have "sockets w ! h = CONNECTING \<or> sockets w ! h = OPEN"
    using live assms(2) by simp
  then have "socket w = Some h"
    using assms(1) len by (auto simp: one_live_def)
  then show "socket v = Some h"
    using assms(5) neq by auto
qed

lemma one_live_open:
  assumes "one_live w" and "readyState_of w s = CONNECTING"
    and "transport v = (socket w, (sockets w)[s := OPEN])"
  shows "one_live v"
  unfolding one_live_def
proof (intro allI impI)
  fix h
  assume h: "h < length (sockets v)" and live: "sockets v ! h = CONNECTING \<or> sockets v ! h = OPEN"
  have sv: "sockets v = (sockets w)[s := OPEN]" and so: "socket v = socket w"
    using assms(3) by (simp_all add: transport_def)
  have len: "h < length (sockets w)"
    using h sv by simp
  have s: "s < length (sockets w)" and c: "sockets w ! s = CONNECTING"
    using assms(2) by (auto simp: readyState_of_def split: if_splits)
  show "socket v = Some h"
  proof (cases "h = s")
    case True
    then show ?thesis
      using assms(1) s c so by (auto simp: one_live_def)
  next
    case False
    then have "sockets w ! h = CONNECTING \<or> sockets w ! h = OPEN"
      using live sv by simp
    then show ?thesis
      using assms(1) len so by (auto simp: one_live_def)
  qed
qed

lemma connect_hooks_transport:
  "transport (snd (connect_hooks env w)) = transport w \<or>
   \<not> connection_exists w \<and>
     transport (snd (connect_hooks env w)) = (Some (length (sockets w)), sockets w @ [CONNECTING])"
  by (auto simp: connect_hooks_def new_WebSocket_def emit_def transport_def Let_def
      split: option.splits)

lemma connect_client_transport:
  "transport (snd (connect_client env w)) = transport w \<or>
   \<not> connection_exists w \<and>
     transport (snd (connect_client env w)) = (Some (length (sockets w)), sockets w @ [CONNECTING])"
proof -
  have e: "transport (snd (case triggerEvent ''error'' p w of
              (None, w'') \<Rightarrow> (Inr False, w'') | (Some e', w'') \<Rightarrow> (Inl e', w''))) = transport w" for p
  proof -
    obtain es r where t: "triggerEvent ''error'' p w = (r, emit es w)"
      using triggerEvent_emits by blast
    show ?thesis
      by (cases r) (simp_all add: t transport_emit)
  qed
  show ?thesis
    using e
    by (auto simp: connect_client_def new_WebSocket_def emit_def transport_def
        split: option.splits)
qed

lemma one_live_connect:
  assumes "one_live w"
  shows "one_live (snd (connect_hooks env w))" and "one_live (snd (connect_client env w))"
proof -
  show "one_live (snd (connect_hooks env w))"
    using connect_hooks_transport [of env w]
  proof
    assume "transport (snd (connect_hooks env w)) = transport w"
    then show ?thesis
      using assms one_live_cong by blast
  next
    assume "\<not> connection_exists w \<and>
     transport (snd (connect_hooks env w)) = (Some (length (sockets w)), sockets w @ [CONNECTING])"
    then show ?thesis
      using one_live_new [OF assms] by blast
  qed
  show "one_live (snd (connect_client env w))"
    using connect_client_transport [of env w]
  proof
    assume "transport (snd (connect_client env w)) = transport w"
    then show ?thesis
      using assms one_live_cong by blast
  next
    assume "\<not> connection_exists w \<and>
     transport (snd (connect_client env w)) = (Some (length (sockets w)), sockets w @ [CONNECTING])"
    then show ?thesis
      using one_live_new [OF assms] by blast
  qed
qed

lemma one_live_close_socket:
  assumes "one_live w" and "socket w = Some s"
  shows "one_live (close_socket s w)" and "one_live ((close_socket s w)\<lparr>socket := None\<rparr>)"
proof -
  have so: "socket (close_socket s w) = socket w"
    by (simp add: close_socket_def emit_def)
  show "one_live (close_socket s w)"
  proof (cases "readyState_of w s = CONNECTING \<or> readyState_of w s = OPEN")
    case True
    then have "sockets (close_socket s w) = (sockets w)[s := CLOSING]"
      by (simp add: close_socket_def emit_def)
    then show ?thesis
      using so by (intro one_live_shut [OF assms(1), where s = s and x = CLOSING]) simp_all
  next
    case False
    then have "sockets (close_socket s w) = sockets w"
      by (simp add: close_socket_def emit_def)
    then have "transport (close_socket s w) = transport w"
      using so by (simp add: transport_def)
    then show ?thesis
      using assms(1) one_live_cong by blast
  qed
  show "one_live ((close_socket s w)\<lparr>socket := None\<rparr>)"
  proof (cases "readyState_of w s = CONNECTING \<or> readyState_of w s = OPEN")
    case True
    then have "sockets ((close_socket s w)\<lparr>socket := None\<rparr>) = (sockets w)[s := CLOSING]"
      by (simp add: close_socket_def emit_def)
    then show ?thesis
      using assms(2) by (intro one_live_shut [OF assms(1), where s = s and x = CLOSING]) simp_all
  next
    case False
    have sk: "sockets ((close_socket s w)\<lparr>socket := None\<rparr>) = sockets w"
      using False by (simp add: close_socket_def emit_def)
    show ?thesis
      unfolding one_live_def sk
    proof (intro allI impI)
      fix h
      assume h: "h < length (sockets w)" and live: "sockets w ! h = CONNECTING \<or> sockets w ! h = OPEN"
      then have "socket w = Some h"
        using assms(1) by (auto simp: one_live_def)
      then have "h = s"
        using assms(2) by simp
      then have "readyState_of w s = CONNECTING \<or> readyState_of w s = OPEN"
        using h live by (simp add: readyState_of_def)
      then show "socket ((close_socket s w)\<lparr>socket := None\<rparr>) = Some h"
        using False by simp
    qed
  qed
qed

lemma one_live_disconnect:
  assumes "one_live w"
  shows "one_live (disconnect_hooks w)" and "one_live (disconnect_client w)"
proof -
  have t: "transport (w\<lparr>autoReconnect := False\<rparr>) = transport w"
    by (simp add: transport_def)
  then have v: "one_live (w\<lparr>autoReconnect := False\<rparr>)"
    using assms one_live_cong by blast
  show "one_live (disconnect_hooks w)"
  proof (cases "socket w")
    case None
    then show ?thesis
      using assms by (simp add: disconnect_hooks_def)
  next
    case (Some s)
    then have "socket (w\<lparr>autoReconnect := False\<rparr>) = Some s"
      by simp
    from one_live_close_socket(1) [OF v this] show ?thesis
      by (simp add: disconnect_hooks_def Some)
  qed
  show "one_live (disconnect_client w)"
  proof (cases "socket w")
    case None
    then show ?thesis
      using assms by (simp add: disconnect_client_def)
  next
    case (Some s)
    then have "socket (w\<lparr>autoReconnect := False\<rparr>) = Some s"
      by simp
    from one_live_close_socket(2) [OF v this] show ?thesis
      by (simp add: disconnect_client_def Some)
  qed
qed

lemma one_live_step_hooks:
  assumes "one_live w" and "step_hooks env a w = Some w'"
  shows "one_live w'"
proof (cases a)
  case Connect
  then show ?thesis
    using assms one_live_connect(1) by auto
next
  case Disconnect
  then show ?thesis
    using assms one_live_disconnect(1) by auto
next
  case (SendCommand x31 x32)
  then show ?thesis
    using assms one_live_cong [OF transport_sendCommand(1)] by auto
next
  case (On x41 x42)
  then show ?thesis
    using assms one_live_cong [OF transport_on(1)] by auto
next
  case (Unsubscribe x51 x52)
  then show ?thesis
    using assms one_live_cong [OF transport_unsubscribe(1)] by auto
next
  case (SocketOpen s)
  let ?v = "w\<lparr>sockets := (sockets w)[s := OPEN]\<rparr>"
  have c: "readyState_of w s = CONNECTING" and w': "w' = snd (on_open_hooks ?v)"
    using assms(2) SocketOpen by (simp_all split: if_splits)
  have "one_live ?v"
    by (rule one_live_open [OF assms(1) c]) (simp add: transport_def)
  then show ?thesis
    unfolding w' using one_live_cong [OF transport_on_open(1)] by blast
next
  case (SocketMessage s data)
  then show ?thesis
    using assms one_live_cong [OF transport_on_message_hooks] by (auto split: if_splits)
next
  case (SocketError s)
  then show ?thesis
    using assms one_live_cong [OF transport_on_error(1)] by (auto split: if_splits)
next
  case (SocketClose s code reason)
  let ?v = "w\<lparr>sockets := (sockets w)[s := CLOSED]\<rparr>"
  have w': "w' = snd (on_close_hooks env code reason ?v)"
    using assms(2) SocketClose by (simp split: if_splits)
  have "one_live ?v"
    by (rule one_live_shut [OF assms(1), of _ s CLOSED]) simp_all
  then show ?thesis
    unfolding w' using one_live_cong [OF transport_on_close(1)] by blast
next
  case (TimerFires i)
  let ?v = "w\<lparr>timers := take i (timers w) @ drop (Suc i) (timers w)\<rparr>"
  have w': "w' = snd (connect_hooks env ?v)"
    using assms(2) TimerFires by (simp add: retry_hooks_def split: if_splits)
  have "transport ?v = transport w"
    by (simp add: transport_def)
  then have "one_live ?v"
    using assms(1) one_live_cong by blast
  then show ?thesis
    unfolding w' by (rule one_live_connect(1))
qed

lemma one_live_step_client:
  assumes "one_live w" and "step_client env a w = Some w'"
  shows "one_live w'"
proof (cases a)
  case Connect
  then show ?thesis
    using assms one_live_connect(2) by auto
next
  case Disconnect
  then show ?thesis
    using assms one_live_disconnect(2) by auto
next
  case (SendCommand x31 x32)
  then show ?thesis
    using assms one_live_cong [OF transport_sendCommand(2)] by auto
next
  case (On x41 x42)
  then show ?thesis
    using assms one_live_cong [OF transport_on(2)] by auto
next
  case (Unsubscribe x51 x52)
  then show ?thesis
    using assms one_live_cong [OF transport_unsubscribe(2)] by auto
next
  case (SocketOpen s)
  let ?v = "w\<lparr>sockets := (sockets w)[s := OPEN]\<rparr>"
  have c: "readyState_of w s = CONNECTING" and w': "w' = snd (on_open_client ?v)"
    using assms(2) SocketOpen by (simp_all split: if_splits)
  have "one_live ?v"
    by (rule one_live_open [OF assms(1) c]) (simp add: transport_def)
  then show ?thesis
    unfolding w' using one_live_cong [OF transport_on_open(2)] by blast
next
  case (SocketMessage s data)
  then show ?thesis
    using assms one_live_cong [OF transport_on_message_client] by (auto split: if_splits)
next
  case (SocketError s)
  then show ?thesis
    using assms one_live_cong [OF transport_on_error(2)] by (auto split: if_splits)
next
  case (SocketClose s code reason)
  let ?v = "w\<lparr>sockets := (sockets w)[s := CLOSED]\<rparr>"
  have w': "w' = snd (on_close_client env code reason ?v)"
    using assms(2) SocketClose by (simp split: if_splits)
  have "one_live ?v"
    by (rule one_live_shut [OF assms(1), of _ s CLOSED]) simp_all
  then show ?thesis
    unfolding w' using one_live_cong [OF transport_on_close(2)] by blast
next
  case (TimerFires i)
  let ?v = "w\<lparr>timers := take i (timers w) @ drop (Suc i) (timers w)\<rparr>"
  have w': "w' = snd (connect_client env ?v)"
    using assms(2) TimerFires by (simp add: retry_client_def split: if_splits)
  have "transport ?v = transport w"
    by (simp add: transport_def)
  then have "one_live ?v"
    using assms(1) one_live_cong by blast
  then show ?thesis
    unfolding w' by (rule one_live_connect(2))
qed

lemma one_live_run:
  assumes step: "\<And>w a w'. one_live w \<Longrightarrow> step a w = Some w' \<Longrightarrow> one_live w'"
  shows "one_live w \<Longrightarrow> run step acts w = Some w' \<Longrightarrow> one_live w'"
proof (induction acts arbitrary: w)
  case Nil
  then show ?case by simp
next
  case (Cons a acts)
  then obtain w1 where s1: "step a w = Some w1" and r: "run step acts w1 = Some w'"
    by (auto split: option.splits)
  from Cons.IH [OF step [OF Cons.prems(1) s1] r] show ?case .
qed

lemma at_most_one_live:
  assumes "one_live w"
  shows "length (live_handles w) \<le> 1"
proof -
  let ?P = "\<lambda>s. sockets w ! s = CONNECTING \<or> sockets w ! s = OPEN"
  have d: "distinct (live_handles w)"
    by (simp add: live_handles_def)
  have "set (live_handles w) \<subseteq> {s. socket w = Some s}"
    using assms by (auto simp: live_handles_def one_live_def)
  moreover have "card {s. socket w = Some s} \<le> 1"
    by (cases "socket w") simp_all
  moreover have "finite {s. socket w = Some s}"
    by (cases "socket w") simp_all
  ultimately have "card (set (live_handles w)) \<le> 1"
    using card_mono [of "{s. socket w = Some s}" "set (live_handles w)"] by linarith
  then show ?thesis
    using distinct_card [OF d] by simp
qed

text \<open>
  Claim C6. While the handle the client holds is connecting or open, \<^verbatim>\<open>connect()\<close>
  returns at once (nothing in the hooks class, \<^verbatim>\<open>false\<close> in the other) and leaves
  the whole world as it is: handle, \<open>connected\<close>, attempt counter, subscriptions, and no
  new \<^verbatim>\<open>WebSocket\<close>. And in every run of the event loop from a client that has
  created no handle yet, whatever the caller, the transport and the timers do, at most
  one handle is connecting or open at any time (both classes).
\<close>

theorem C6_one_connection:
  "(connection_exists w \<longrightarrow>
      connect_hooks env w = (None, w) \<and> connect_client env w = (Inr False, w))
   \<and> (\<forall>acts w'. sockets w0 = [] \<and> run (step_hooks env) acts w0 = Some w' \<longrightarrow>
        length (live_handles w') \<le> 1)
   \<and> (\<forall>acts w'. sockets w0 = [] \<and> run (step_client env) acts w0 = Some w' \<longrightarrow>
        length (live_handles w') \<le> 1)"
proof (intro conjI allI impI)
  assume "connection_exists w"
  then show "connect_hooks env w = (None, w)" and "connect_client env w = (Inr False, w)"
    by (simp_all add: connect_hooks_def connect_client_def)
next
  fix acts w'
  assume a: "sockets w0 = [] \<and> run (step_hooks env) acts w0 = Some w'"
  then have "one_live w0"
    by (simp add: one_live_def)
  moreover have "\<And>u a u'. one_live u \<Longrightarrow> step_hooks env a u = Some u' \<Longrightarrow> one_live u'"
    by (rule one_live_step_hooks)
  ultimately have "one_live w'"
    using a one_live_run [of "step_hooks env" w0 acts w'] by blast
  then show "length (live_handles w') \<le> 1"
    by (rule at_most_one_live)
next
  fix acts w'
  assume a: "sockets w0 = [] \<and> run (step_client env) acts w0 = Some w'"
  then have "one_live w0"
    by (simp add: one_live_def)
  moreover have "\<And>u a u'. one_live u \<Longrightarrow> step_client env a u = Some u' \<Longrightarrow> one_live u'"
    by (rule one_live_step_client)
  ultimately have "one_live w'"
    using a one_live_run [of "step_client env" w0 acts w'] by blast
  then show "length (live_handles w') \<le> 1"
    by (rule at_most_one_live)
qed

theorem C6_witness:
  "connection_exists open_client
   \<and> connect_hooks example_host open_client = (None, open_client)
   \<and> connect_client example_host open_client = (Inr False, open_client)
   \<and> run (step_hooks example_host) [Connect, Connect, SocketOpen 0, Connect] example_client
       = Some (open_client\<lparr>trace := [Created 0 ''wss://game.example'' None,
                                     Fired ''connected'' NoPayload]\<rparr>)
   \<and> length (live_handles (open_client\<lparr>trace := [Created 0 ''wss://game.example'' None,
                                     Fired ''connected'' NoPayload]\<rparr>)) \<le> 1
   \<and> run (step_client example_host) [Connect, Connect, SocketOpen 0, Connect] example_client
       = Some (open_client\<lparr>trace := [Created 0 ''wss://game.example'' None,
                                     Fired ''connected'' NoPayload]\<rparr>)"
proof -
  have ce: "connection_exists open_client"
    by (simp add: open_client_def connection_exists_def readyState_of_def)
  have s0: "sockets example_client = []"
    by (simp add: example_client_fields)
  have rh: "run (step_hooks example_host) [Connect, Connect, SocketOpen 0, Connect] example_client
       = Some (open_client\<lparr>trace := [Created 0 ''wss://game.example'' None,
                                     Fired ''connected'' NoPayload]\<rparr>)"
    by (simp add: open_client_def example_client_def new_ShoehiveClient_def no_options_def
        or_default_def number_or_def example_host_def connect_hooks_def connection_exists_def new_WebSocket_def
        emit_def readyState_of_def on_open_hooks_def triggerEvent_def handlers_at_def
        Object_prototype_keys_def and_then_def notify_def)
  have rc: "run (step_client example_host) [Connect, Connect, SocketOpen 0, Connect] example_client
       = Some (open_client\<lparr>trace := [Created 0 ''wss://game.example'' None,
                                     Fired ''connected'' NoPayload]\<rparr>)"
    by (simp add: open_client_def example_client_def new_ShoehiveClient_def no_options_def
        or_default_def number_or_def example_host_def connect_client_def connection_exists_def new_WebSocket_def
        emit_def readyState_of_def on_open_client_def triggerEvent_def handlers_at_def
        Object_prototype_keys_def)
  note inst = C6_one_connection [where w = open_client and env = example_host and ?w0.0 = example_client]
  from inst [THEN conjunct1, THEN mp, OF ce]
    inst [THEN conjunct2, THEN conjunct1, THEN spec, THEN spec, THEN mp, OF conjI [OF s0 rh]]
    ce rh rc
  show ?thesis
    by (simp only: simp_thms)
qed

section \<open>disconnect and a retry that is already scheduled\<close>

lemma default_delay: "multiply (Finite 1000) (pow_rounded (Finite (3 / 2)) 0) = Finite 1000"
  by code_simp

text \<open>
  Claim C2, evaluated. A client with the default options connects, its handle closes
  before it opens (the close listener schedules the first retry), and the caller then
  calls \<^verbatim>\<open>disconnect()\<close>. When the timer fires, \<^verbatim>\<open>connect()\<close> creates a second
  handle, in both classes: the guard of \<^verbatim>\<open>connect()\<close> looks at the handle only, not
  at \<open>autoReconnect\<close>.
\<close>

theorem C2_retry_after_disconnect_connects:
  "(case run (step_hooks example_host) [Connect, SocketClose 0 1006 [], Disconnect] example_client of
      None \<Rightarrow> False
    | Some w \<Rightarrow>
        timers w = [Finite 1000] \<and> \<not> autoReconnect w \<and> created (trace w) = [0] \<and>
        created (trace (retry_hooks example_host 0 w)) = [0, 1] \<and>
        sockets (retry_hooks example_host 0 w) = [CLOSED, CONNECTING] \<and>
        socket (retry_hooks example_host 0 w) = Some 1)
   \<and> (case run (step_client example_host) [Connect, SocketClose 0 1006 [], Disconnect] example_client of
      None \<Rightarrow> False
    | Some w \<Rightarrow>
        timers w = [Finite 1000] \<and> \<not> autoReconnect w \<and> created (trace w) = [0] \<and>
        created (trace (retry_client example_host 0 w)) = [0, 1] \<and>
        sockets (retry_client example_host 0 w) = [CLOSED, CONNECTING] \<and>
        socket (retry_client example_host 0 w) = Some 1)"
  by (simp add: example_client_def new_ShoehiveClient_def no_options_def or_default_def
      number_or_def default_delay Let_def
      example_host_def connect_hooks_def connect_client_def connection_exists_def
      new_WebSocket_def emit_def readyState_of_def on_close_hooks_def on_close_client_def
      triggerEvent_def handlers_at_def Object_prototype_keys_def and_then_def notify_def
      handle_reconnection_def disconnect_hooks_def disconnect_client_def close_socket_def
      retry_hooks_def retry_client_def)

section \<open>The hook outside a provider\<close>

text \<open>
  Claim C8, evaluated. With no provider above the caller, \<^verbatim>\<open>useShoehive\<close> of
  \<^verbatim>\<open>src/hooks/useShoehive.js\<close> returns the default value of
  \<^verbatim>\<open>src/context/ShoehiveContext.js\<close>, an object, and does not throw; the hook of the
  \<^verbatim>\<open>.jsx\<close> file, whose context has the default \<^verbatim>\<open>null\<close>, throws. Under a provider
  both return the provider's value.
\<close>

theorem C8_useShoehive_outside_provider:
  "useShoehive None =
     Inr \<lparr> cv_client = None, cv_isConnected = False, cv_connectionState = Some ''disconnected'',
           cv_playerState = None, cv_lobbyState = None, cv_tableState = None \<rparr>
   \<and> useShoehive_jsx None = Inl UsageError
   \<and> useShoehive (Some (Some v)) = Inr v
   \<and> useShoehive_jsx (Some (Some v)) = Inr v"
  by (simp add: useShoehive_def useShoehive_jsx_def useContext_def ShoehiveContext_def
      ShoehiveContext_jsx_def createContext_def)


end
